theory Spec2Isabelle
  imports Main
begin

section \<open>Python values and the environment of a run\<close>

text \<open>
  The exceptions the program raises or receives. All of them are subclasses of Python's
  \<^verbatim>\<open>Exception\<close>, so every \<^verbatim>\<open>except Exception\<close> of the source catches each of them.
  \<^verbatim>\<open>str(e)\<close> is the message the exception was built with.
\<close>

datatype exn =
    Exception string
  | LLMConfigError string
  | OSError string
  | JSONDecodeError string
  | TypeError string
  | KeyError string

fun str_exn :: "exn \<Rightarrow> string" where
  "str_exn (Exception m) = m"
| "str_exn (LLMConfigError m) = m"
| "str_exn (OSError m) = m"
| "str_exn (JSONDecodeError m) = m"
| "str_exn (TypeError m) = m"
| "str_exn (KeyError m) = m"

text \<open>\<^verbatim>\<open>str(n)\<close> for a non-negative integer: its decimal digits.\<close>

definition digit_char :: "nat \<Rightarrow> char" where
  "digit_char d = ''0123456789'' ! d"

fun str_nat :: "nat \<Rightarrow> string" where
  "str_nat n = (if n < 10 then [digit_char n] else str_nat (n div 10) @ [digit_char (n mod 10)])"

declare str_nat.simps [simp del]

text \<open>
  A reading of \<^verbatim>\<open>datetime.now()\<close> and the two \<^verbatim>\<open>strftime\<close> formats the writer uses:
  \<^verbatim>\<open>%Y%m%d_%H%M%S\<close> for file names and \<^verbatim>\<open>%Y-%m-%d %H:%M:%S\<close> for headers. Every
  field but the year is padded with zeros to two digits, the year to four.
\<close>

record datetime =
  year :: nat
  month :: nat
  day :: nat
  hour :: nat
  minute :: nat
  second :: nat

definition zfill :: "nat \<Rightarrow> string \<Rightarrow> string" where
  "zfill k s = replicate (k - length s) (CHR ''0'') @ s"

definition strftime_compact :: "datetime \<Rightarrow> string" where
  "strftime_compact d =
     zfill 4 (str_nat (year d)) @ zfill 2 (str_nat (month d)) @ zfill 2 (str_nat (day d)) @ ''_'' @
     zfill 2 (str_nat (hour d)) @ zfill 2 (str_nat (minute d)) @ zfill 2 (str_nat (second d))"

definition strftime_iso :: "datetime \<Rightarrow> string" where
  "strftime_iso d =
     zfill 4 (str_nat (year d)) @ ''-'' @ zfill 2 (str_nat (month d)) @ ''-'' @
     zfill 2 (str_nat (day d)) @ '' '' @
     zfill 2 (str_nat (hour d)) @ '':'' @ zfill 2 (str_nat (minute d)) @ '':'' @
     zfill 2 (str_nat (second d))"

text \<open>
  What \<^verbatim>\<open>json.load\<close> returns: a dict, a list, a string, a number, a boolean or
  \<^verbatim>\<open>None\<close>.
\<close>

datatype json =
    JNull
  | JBool bool
  | JNum int
  | JStr string
  | JArr "json list"
  | JObj "(string \<times> json) list"

text \<open>
  The state of the configuration file as the three library calls of
  \<^verbatim>\<open>load_llm_config\<close> see it: \<^verbatim>\<open>CONFIG_PATH.exists()\<close> is false (\<open>NotFound\<close>);
  the file exists but \<^verbatim>\<open>open\<close> or the read raises, message given (\<open>Unreadable\<close>);
  \<^verbatim>\<open>json.load\<close> raises \<^verbatim>\<open>JSONDecodeError\<close> (\<open>BadJSON\<close>); or it returns a value.
\<close>

datatype config_file =
    NotFound
  | Unreadable string
  | BadJSON string
  | Parsed json

text \<open>One crawl result of the engine: the attributes the program reads.\<close>

record page =
  url :: string
  markdown :: string
  depth :: nat

text \<open>
  The lines \<^verbatim>\<open>main\<close> prints, one constructor per \<^verbatim>\<open>print\<close> statement of
  \<^verbatim>\<open>main.py\<close>, carrying the values the statement interpolates:
  \<^item> \<open>ConfigHeader\<close>: "Web Crawler Configuration:" (line 30);
  \<^item> \<open>ConfigItem k v\<close>: "  k: v" (line 33); \<open>Blank\<close>: the empty line (line 34);
  \<^item> \<open>TargetURL u\<close>: "Target URL: u" (line 41); \<open>Rule\<close>: sixty "=" (line 42);
  \<^item> \<open>StartingCrawl u\<close>: "Starting crawl of: u" (line 46);
  \<^item> \<open>CrawledPages n\<close>: "Successfully crawled n pages" (line 49);
  \<^item> \<open>StreamingTo p\<close>: "Streaming results to: p" (line 61);
  \<^item> \<open>Extracting u\<close>, \<open>Extracted u\<close>: lines 65 and 74;
  \<^item> \<open>ExtractError u m\<close>: "Error extracting information from u: m" (line 77);
  \<^item> \<open>Appended u\<close>: "Appended results for u to markdown file" (line 87);
  \<^item> \<open>CrawlCompleted\<close>: "Crawl completed successfully!" (line 89);
  \<^item> \<open>SavedTo p\<close>: "All results saved to: p" (line 90);
  \<^item> \<open>ErrorDuringCrawl m\<close>: "Error during crawl: m" (line 93).
\<close>

datatype line =
    ConfigHeader
  | ConfigItem string string
  | Blank
  | TargetURL string
  | Rule
  | StartingCrawl string
  | CrawledPages nat
  | StreamingTo string
  | Extracting string
  | Extracted string
  | ExtractError string string
  | Appended string
  | CrawlCompleted
  | SavedTo string
  | ErrorDuringCrawl string

text \<open>Records of the \<^verbatim>\<open>logging\<close> module (\<^verbatim>\<open>llm/agent.py\<close>).\<close>

datatype log_record = Info string | Warning string | Error string

text \<open>
  The world a run changes: the files (path to content, as the operating system holds
  it), the directories, standard output, the log, the prompts sent to the agent so far,
  the root URLs handed to the crawl engine so far, and how many file-system requests and
  clock readings have been made.
\<close>

record world =
  files :: "string \<rightharpoonup> string"
  dirs :: "string set"
  stdout :: "line list"
  logged :: "log_record list"
  agent_calls :: "string list"
  crawl_calls :: "string list"
  os_calls :: nat
  clock_reads :: nat

text \<open>
  The configuration objects of the crawl engine that \<^verbatim>\<open>crawlers/web_crawler.py\<close> builds:
  the three filters, the breadth-first strategy holding the filter chain, and the run
  configuration. The constants are those of \<^verbatim>\<open>util/constants.py\<close>.
\<close>

datatype filter_spec =
    URLPatternFilter "string list"
  | DomainFilter "string list"
  | ContentTypeFilter "string list"

datatype scraping = LXMLWebScrapingStrategy

record bfs_deep_crawl_strategy =
  max_depth :: int
  include_external :: bool
  filter_chain :: "filter_spec list"

record crawler_run_config =
  deep_crawl_strategy :: bfs_deep_crawl_strategy
  scraping_strategy :: scraping
  verbose :: bool

definition URL_PATTERNS :: "string list" where
  "URL_PATTERNS = [''*react*'', ''*langgraph*'', ''*pydantic*'', ''*fastmcp*'']"

definition ALLOWED_DOMAINS :: "string list" where
  "ALLOWED_DOMAINS =
     [''ai.pydantic.dev'', ''langchain-ai.github.io'',
      ''digitaltoolkit.livingdesign.walmart.com'', ''gofastmcp.com'']"

definition ALLOWED_CONTENT_TYPES :: "string list" where
  "ALLOWED_CONTENT_TYPES = [''text/html'']"

text \<open>
  The collaborators outside the repository, which the program only calls:
  \<^item> \<open>os_fault n\<close>: whether the \<open>n\<close>-th file-system request of the run fails, and with
    which message (\<open>None\<close>: it succeeds);
  \<^item> \<open>clock n\<close>: the \<open>n\<close>-th reading of \<^verbatim>\<open>datetime.now()\<close>;
  \<^item> \<open>engine u c\<close>: what \<^verbatim>\<open>AsyncWebCrawler().arun\<close> does for root URL \<open>u\<close> under the
    run configuration \<open>c\<close>: raise, or return the crawled pages;
  \<^item> \<open>model_reply n p\<close>: what the \<open>n\<close>-th call \<^verbatim>\<open>agent.run(p)\<close> does: raise, or return
    a result whose \<^verbatim>\<open>output\<close> is the given text;
  \<^item> \<open>config_file\<close>: the state of the configuration file;
  \<^item> \<open>client_fault\<close>: whether building the HTTP client (the constructor of httpx) raises;
  \<^item> \<open>sdk_fault\<close>: whether building the provider's client, the provider, the model and
    the agent (the constructors of anthropic and pydantic_ai) raises.
\<close>

record env =
  os_fault :: "nat \<Rightarrow> string option"
  clock :: "nat \<Rightarrow> datetime"
  engine :: "string \<Rightarrow> crawler_run_config \<Rightarrow> exn + page list"
  model_reply :: "nat \<Rightarrow> string \<Rightarrow> exn + string"
  config_file :: config_file
  client_fault :: "exn option"
  sdk_fault :: "exn option"

definition print :: "line \<Rightarrow> world \<Rightarrow> world" where
  "print l w = w\<lparr>stdout := stdout w @ [l]\<rparr>"

definition datetime_now :: "env \<Rightarrow> world \<Rightarrow> datetime \<times> world" where
  "datetime_now e w = (clock e (clock_reads w), w\<lparr>clock_reads := Suc (clock_reads w)\<rparr>)"

text \<open>
  A file-system request: it is counted, and the environment says whether it fails.
\<close>

definition os_request :: "env \<Rightarrow> world \<Rightarrow> string option \<times> world" where
  "os_request e w = (os_fault e (os_calls w), w\<lparr>os_calls := Suc (os_calls w)\<rparr>)"

section \<open>Files as Python sees them\<close>

text \<open>
  A text file object buffers what is written to it; \<^verbatim>\<open>flush\<close> hands the buffer to the
  operating system, and closing the file flushes what is left. Opening is one file-system
  request, handing over a non-empty buffer is another; a flush of an empty buffer asks
  nothing of the system. A request that fails raises \<^verbatim>\<open>OSError\<close> and leaves the file's
  content as it was; the file object is then dropped with what its buffer held.
\<close>

datatype mode = ModeW | ModeA

record file_obj =
  f_path :: string
  f_buffer :: string

definition content_of :: "world \<Rightarrow> string \<Rightarrow> string" where
  "content_of w p = (case files w p of None \<Rightarrow> [] | Some c \<Rightarrow> c)"

text \<open>
  \<^verbatim>\<open>open(p, 'w')\<close> creates the file or truncates it; \<^verbatim>\<open>open(p, 'a')\<close> creates it when
  absent and keeps its content otherwise.
\<close>

definition open_file :: "env \<Rightarrow> string \<Rightarrow> mode \<Rightarrow> world \<Rightarrow> (exn + file_obj) \<times> world" where
  "open_file e p m w =
     (case os_request e w of
        (Some msg, w1) \<Rightarrow> (Inl (OSError msg), w1)
      | (None, w1) \<Rightarrow>
          (Inr \<lparr>f_path = p, f_buffer = []\<rparr>,
           w1\<lparr>files := (files w1)(p \<mapsto> (case m of ModeW \<Rightarrow> [] | ModeA \<Rightarrow> content_of w1 p))\<rparr>))"

definition f_write :: "file_obj \<Rightarrow> string \<Rightarrow> file_obj" where
  "f_write f s = f\<lparr>f_buffer := f_buffer f @ s\<rparr>"

definition f_flush :: "env \<Rightarrow> file_obj \<Rightarrow> world \<Rightarrow> (exn + file_obj) \<times> world" where
  "f_flush e f w =
     (if f_buffer f = [] then (Inr f, w)
      else
        (case os_request e w of
           (Some msg, w1) \<Rightarrow> (Inl (OSError msg), w1)
         | (None, w1) \<Rightarrow>
             (Inr (f\<lparr>f_buffer := []\<rparr>),
              w1\<lparr>files := (files w1)(f_path f \<mapsto> content_of w1 (f_path f) @ f_buffer f)\<rparr>)))"

definition f_close :: "env \<Rightarrow> file_obj \<Rightarrow> world \<Rightarrow> (exn + unit) \<times> world" where
  "f_close e f w =
     (case f_flush e f w of
        (Inl x, w1) \<Rightarrow> (Inl x, w1)
      | (Inr f', w1) \<Rightarrow> (Inr (), w1))"

text \<open>
  \<^verbatim>\<open>with open(p, m) as f: body\<close>: the file is closed when the body ends; an exception of
  \<^verbatim>\<open>open\<close>, of the body or of the close leaves the block.
\<close>

definition with_open ::
  "env \<Rightarrow> string \<Rightarrow> mode \<Rightarrow> (file_obj \<Rightarrow> world \<Rightarrow> (exn + file_obj) \<times> world) \<Rightarrow> world \<Rightarrow>
   (exn + unit) \<times> world" where
  "with_open e p m body w =
     (case open_file e p m w of
        (Inl x, w1) \<Rightarrow> (Inl x, w1)
      | (Inr f, w1) \<Rightarrow>
          (case body f w1 of
             (Inl x, w2) \<Rightarrow> (Inl x, w2)
           | (Inr f', w2) \<Rightarrow> f_close e f' w2))"

section \<open>The streaming writer (\<^verbatim>\<open>util/file_writer.py\<close>)\<close>

text \<open>
  \<^verbatim>\<open>FileWriter\<close> holds its output directory. A path is the string Python prints for it,
  and \<^verbatim>\<open>output_dir / file_name\<close> joins with a slash.
\<close>

record file_writer =
  output_dir :: string

definition path_join :: "string \<Rightarrow> string \<Rightarrow> string" where
  "path_join d n = d @ ''/'' @ n"

definition ensure_output_directory :: "env \<Rightarrow> file_writer \<Rightarrow> world \<Rightarrow> (exn + unit) \<times> world" where
  "ensure_output_directory e self w =
     (case os_request e w of
        (Some msg, w1) \<Rightarrow>
          (Inl (Exception (''Failed to create output directory '' @ output_dir self @ '': '' @ msg)), w1)
      | (None, w1) \<Rightarrow> (Inr (), w1\<lparr>dirs := insert (output_dir self) (dirs w1)\<rparr>))"

definition FileWriter :: "env \<Rightarrow> string \<Rightarrow> world \<Rightarrow> (exn + file_writer) \<times> world" where
  "FileWriter e d w =
     (let self = \<lparr>output_dir = d\<rparr> in
      case ensure_output_directory e self w of
        (Inl x, w1) \<Rightarrow> (Inl x, w1)
      | (Inr u, w1) \<Rightarrow> (Inr self, w1))"

text \<open>
  File names. The characters are ASCII: \<^verbatim>\<open>isalnum\<close> holds of the letters and digits,
  \<^verbatim>\<open>rstrip\<close> removes the trailing spaces (the only white space the filter lets through),
  and \<^verbatim>\<open>lower\<close> maps the capital letters.
\<close>

definition isalnum :: "char \<Rightarrow> bool" where
  "isalnum c =
     (let n = (of_char c :: nat) in (48 \<le> n \<and> n \<le> 57) \<or> (65 \<le> n \<and> n \<le> 90) \<or> (97 \<le> n \<and> n \<le> 122))"

definition rstrip :: "string \<Rightarrow> string" where
  "rstrip s = rev (dropWhile (\<lambda>c. c = CHR '' '') (rev s))"

definition lower_char :: "char \<Rightarrow> char" where
  "lower_char c =
     (let n = (of_char c :: nat) in if 65 \<le> n \<and> n \<le> 90 then char_of (n + 32) else c)"

definition sanitize :: "string \<Rightarrow> string" where
  "sanitize base_name =
     (let sanitized_name =
        rstrip (filter (\<lambda>c. isalnum c \<or> c = CHR '' '' \<or> c = CHR ''-'' \<or> c = CHR ''_'') base_name)
      in map lower_char (map (\<lambda>c. if c = CHR '' '' then CHR ''_'' else c) sanitized_name))"

definition generate_filename :: "env \<Rightarrow> string \<Rightarrow> string \<Rightarrow> bool \<Rightarrow> world \<Rightarrow> string \<times> world" where
  "generate_filename e base_name extension timestamp w =
     (let sanitized_name = sanitize base_name in
      if timestamp then
        (case datetime_now e w of
           (now, w1) \<Rightarrow> (sanitized_name @ ''_'' @ strftime_compact now @ extension, w1))
      else (sanitized_name @ extension, w))"

text \<open>
  \<^verbatim>\<open>if title:\<close> on an optional string: a title that is \<^verbatim>\<open>None\<close> or empty is false.
\<close>

fun truthy :: "string option \<Rightarrow> bool" where
  "truthy None = False"
| "truthy (Some s) = (s \<noteq> [])"

definition header_text :: "string \<Rightarrow> datetime \<Rightarrow> string" where
  "header_text title now =
     ''# '' @ title @ ''\<newline>\<newline>'' @
     ''*Generated on: '' @ strftime_iso now @ ''*\<newline>\<newline>'' @
     ''---\<newline>\<newline>''"

definition header_content :: "env \<Rightarrow> string option \<Rightarrow> world \<Rightarrow> string \<times> world" where
  "header_content e title w =
     (if truthy title then
        (case datetime_now e w of (now, w1) \<Rightarrow> (header_text (the title) now, w1))
      else ([], w))"

definition initialize_streaming_markdown ::
  "env \<Rightarrow> file_writer \<Rightarrow> string \<Rightarrow> string option \<Rightarrow> bool \<Rightarrow> world \<Rightarrow> (exn + string) \<times> world" where
  "initialize_streaming_markdown e self base_filename title timestamp w =
     (case generate_filename e base_filename ''.md'' timestamp w of
        (file_name, w1) \<Rightarrow>
          (let file_path = path_join (output_dir self) file_name in
           case header_content e title w1 of
             (header, w2) \<Rightarrow>
               (case with_open e file_path ModeW (\<lambda>f w'. (Inr (f_write f header), w')) w2 of
                  (Inl x, w3) \<Rightarrow>
                    (Inl (Exception (''Failed to initialize streaming markdown file: '' @ str_exn x)), w3)
                | (Inr u, w3) \<Rightarrow> (Inr file_path, w3))))"

text \<open>
  The body of the \<^verbatim>\<open>with\<close> block of \<^verbatim>\<open>append_to_markdown\<close>: \<^verbatim>\<open>f.write(append_content)\<close>
  and then \<^verbatim>\<open>f.flush()\<close>.
\<close>

definition append_body :: "env \<Rightarrow> string \<Rightarrow> file_obj \<Rightarrow> world \<Rightarrow> (exn + file_obj) \<times> world" where
  "append_body e append_content f w = f_flush e (f_write f append_content) w"

definition append_content :: "string \<Rightarrow> string option \<Rightarrow> string" where
  "append_content content section_title =
     (if truthy section_title then ''## '' @ the section_title @ ''\<newline>\<newline>'' else []) @
     content @ ''\<newline>\<newline>''"

definition append_to_markdown ::
  "env \<Rightarrow> file_writer \<Rightarrow> string \<Rightarrow> string \<Rightarrow> string option \<Rightarrow> world \<Rightarrow> (exn + unit) \<times> world" where
  "append_to_markdown e self file_path content section_title w =
     (case with_open e file_path ModeA (append_body e (append_content content section_title)) w of
        (Inl x, w1) \<Rightarrow> (Inl (Exception (''Failed to append to markdown file: '' @ str_exn x)), w1)
      | (Inr u, w1) \<Rightarrow> (Inr (), w1))"

section \<open>The crawler (\<^verbatim>\<open>crawlers/web_crawler.py\<close>)\<close>

record web_crawler =
  wc_max_depth :: int
  wc_include_external :: bool
  wc_verbose :: bool
  wc_config :: crawler_run_config

definition create_crawler_config :: "int \<Rightarrow> bool \<Rightarrow> bool \<Rightarrow> crawler_run_config" where
  "create_crawler_config self_max_depth self_include_external self_verbose =
     (let chain =
        [URLPatternFilter URL_PATTERNS, DomainFilter ALLOWED_DOMAINS,
         ContentTypeFilter ALLOWED_CONTENT_TYPES]
      in \<lparr>deep_crawl_strategy =
            \<lparr>max_depth = self_max_depth, include_external = self_include_external,
             filter_chain = chain\<rparr>,
          scraping_strategy = LXMLWebScrapingStrategy,
          verbose = self_verbose\<rparr>)"

definition WebCrawler :: "int \<Rightarrow> bool \<Rightarrow> bool \<Rightarrow> web_crawler" where
  "WebCrawler d x v =
     \<lparr>wc_max_depth = d, wc_include_external = x, wc_verbose = v,
      wc_config = create_crawler_config d x v\<rparr>"

text \<open>
  How the engine uses a filter chain is the engine's business (crawl4ai, outside the
  repository): a link is admitted when every filter of the chain, asked in order, accepts
  it. What one filter accepts is the parameter \<open>accepts\<close>.
\<close>

fun chain_admits :: "(filter_spec \<Rightarrow> 'a \<Rightarrow> bool) \<Rightarrow> filter_spec list \<Rightarrow> 'a \<Rightarrow> bool" where
  "chain_admits accepts [] link = True"
| "chain_admits accepts (f # fs) link = (if accepts f link then chain_admits accepts fs link else False)"

definition crawl :: "env \<Rightarrow> web_crawler \<Rightarrow> string \<Rightarrow> world \<Rightarrow> (exn + page list) \<times> world" where
  "crawl e self u w =
     (let w1 = w\<lparr>crawl_calls := crawl_calls w @ [u]\<rparr> in
      case engine e u (wc_config self) of
        Inl x \<Rightarrow> (Inl (Exception (''Failed to crawl '' @ u @ '': '' @ str_exn x)), w1)
      | Inr results \<Rightarrow> (Inr results, w1))"

text \<open>\<^verbatim>\<open>str\<close> of an integer and of a boolean, for the configuration summary.\<close>

definition str_int :: "int \<Rightarrow> string" where
  "str_int i = (if i < 0 then ''-'' @ str_nat (nat (- i)) else str_nat (nat i))"

definition str_bool :: "bool \<Rightarrow> string" where
  "str_bool b = (if b then ''True'' else ''False'')"

definition get_config_summary :: "web_crawler \<Rightarrow> (string \<times> string) list" where
  "get_config_summary self =
     [(''max_depth'', str_int (wc_max_depth self)),
      (''include_external'', str_bool (wc_include_external self)),
      (''verbose'', str_bool (wc_verbose self)),
      (''strategy'', ''BFSDeepCrawlStrategy''),
      (''scraping_strategy'', ''LXMLWebScrapingStrategy'')]"

section \<open>The agent (\<^verbatim>\<open>llm/agent.py\<close>)\<close>

text \<open>
  The three operations the module applies to the loaded configuration, as Python defines
  them on each kind of value: \<^verbatim>\<open>k in config\<close> (key of a dict, element of a list,
  substring of a string, \<^verbatim>\<open>TypeError\<close> otherwise), \<^verbatim>\<open>config[k]\<close> (defined on a dict only)
  and truth. The pairs of a \<open>JObj\<close> are the items of the dict. The messages of the
  \<^verbatim>\<open>TypeError\<close>s are given without their quotation marks.
\<close>

fun starts_with :: "string \<Rightarrow> string \<Rightarrow> bool" where
  "starts_with s [] = True"
| "starts_with [] (k # ks) = False"
| "starts_with (c # s) (k # ks) = (c = k \<and> starts_with s ks)"

fun contains :: "string \<Rightarrow> string \<Rightarrow> bool" where
  "contains [] k = (k = [])"
| "contains (c # s) k = (starts_with (c # s) k \<or> contains s k)"

fun py_in :: "string \<Rightarrow> json \<Rightarrow> exn + bool" where
  "py_in k (JObj kvs) = Inr (k \<in> set (map fst kvs))"
| "py_in k (JArr xs) = Inr (JStr k \<in> set xs)"
| "py_in k (JStr s) = Inr (contains s k)"
| "py_in k (JNum n) = Inl (TypeError ''argument of type int is not iterable'')"
| "py_in k (JBool b) = Inl (TypeError ''argument of type bool is not iterable'')"
| "py_in k JNull = Inl (TypeError ''argument of type NoneType is not iterable'')"

fun py_getitem :: "json \<Rightarrow> string \<Rightarrow> exn + json" where
  "py_getitem (JObj kvs) k = (case map_of kvs k of None \<Rightarrow> Inl (KeyError k) | Some v \<Rightarrow> Inr v)"
| "py_getitem (JArr xs) k = Inl (TypeError ''list indices must be integers or slices, not str'')"
| "py_getitem (JStr s) k = Inl (TypeError ''string indices must be integers, not str'')"
| "py_getitem (JNum n) k = Inl (TypeError ''int object is not subscriptable'')"
| "py_getitem (JBool b) k = Inl (TypeError ''bool object is not subscriptable'')"
| "py_getitem JNull k = Inl (TypeError ''NoneType object is not subscriptable'')"

fun json_truthy :: "json \<Rightarrow> bool" where
  "json_truthy JNull = False"
| "json_truthy (JBool b) = b"
| "json_truthy (JNum n) = (n \<noteq> 0)"
| "json_truthy (JStr s) = (s \<noteq> [])"
| "json_truthy (JArr xs) = (xs \<noteq> [])"
| "json_truthy (JObj kvs) = (kvs \<noteq> [])"

definition CONFIG_PATH :: string where
  "CONFIG_PATH = ''/etc/secrets/.json''"

text \<open>
  \<^verbatim>\<open>[field for field in required_fields if field not in config]\<close>: the first membership
  test that raises ends the comprehension.
\<close>

fun missing_fields :: "string list \<Rightarrow> json \<Rightarrow> exn + string list" where
  "missing_fields [] config = Inr []"
| "missing_fields (field # rest) config =
     (case py_in field config of
        Inl x \<Rightarrow> Inl x
      | Inr present \<Rightarrow>
          (case missing_fields rest config of
             Inl x \<Rightarrow> Inl x
           | Inr ms \<Rightarrow> Inr (if present then ms else field # ms)))"

text \<open>\<^verbatim>\<open>str\<close> of a list of field names, as it appears in the message.\<close>

fun join_fields :: "string list \<Rightarrow> string" where
  "join_fields [] = []"
| "join_fields [f] = [CHR 0x27] @ f @ [CHR 0x27]"
| "join_fields (f # g # fs) = [CHR 0x27] @ f @ [CHR 0x27] @ '', '' @ join_fields (g # fs)"

definition repr_fields :: "string list \<Rightarrow> string" where
  "repr_fields fs = ''['' @ join_fields fs @ '']''"

text \<open>The statements inside the \<^verbatim>\<open>try\<close> of \<^verbatim>\<open>load_llm_config\<close>.\<close>

definition load_llm_config_try :: "env \<Rightarrow> world \<Rightarrow> (exn + json) \<times> world" where
  "load_llm_config_try e w =
     (case config_file e of
        NotFound \<Rightarrow> (Inl (LLMConfigError (''Configuration file not found: '' @ CONFIG_PATH)), w)
      | Unreadable m \<Rightarrow> (Inl (OSError m), w)
      | BadJSON m \<Rightarrow> (Inl (JSONDecodeError m), w)
      | Parsed config \<Rightarrow>
          (case missing_fields [''base_url'', ''api_key''] config of
             Inl x \<Rightarrow> (Inl x, w)
           | Inr ms \<Rightarrow>
               if ms \<noteq> [] then
                 (Inl (LLMConfigError (''Missing required configuration fields: '' @ repr_fields ms)), w)
               else
                 (Inr config,
                  w\<lparr>logged := logged w @ [Info ''LLM configuration loaded successfully'']\<rparr>)))"

text \<open>
  The two handlers: \<^verbatim>\<open>JSONDecodeError\<close> first, then every other \<^verbatim>\<open>Exception\<close>, among
  them the \<^verbatim>\<open>LLMConfigError\<close>s raised inside the \<^verbatim>\<open>try\<close>.
\<close>

definition load_llm_config :: "env \<Rightarrow> world \<Rightarrow> (exn + json) \<times> world" where
  "load_llm_config e w =
     (case load_llm_config_try e w of
        (Inl (JSONDecodeError m), w1) \<Rightarrow>
          (Inl (LLMConfigError (''Invalid JSON in configuration file: '' @ m)), w1)
      | (Inl x, w1) \<Rightarrow> (Inl (LLMConfigError (''Failed to load configuration: '' @ str_exn x)), w1)
      | (Inr config, w1) \<Rightarrow> (Inr config, w1))"

text \<open>
  \<^verbatim>\<open>k in config and config[k]\<close>: the subscript is evaluated only when the membership
  holds.
\<close>

definition config_value :: "json \<Rightarrow> string \<Rightarrow> exn + json option" where
  "config_value config k =
     (case py_in k config of
        Inl x \<Rightarrow> Inl x
      | Inr False \<Rightarrow> Inr None
      | Inr True \<Rightarrow>
          (case py_getitem config k of
             Inl x \<Rightarrow> Inl x
           | Inr v \<Rightarrow> Inr (if json_truthy v then Some v else None)))"

text \<open>
  \<^verbatim>\<open>create_http_client\<close> returns the client, which is the keyword arguments it is
  built from (\<open>http_client\<close> is the library's constructor).
  \<^verbatim>\<open>Path(v)\<close> raises \<^verbatim>\<open>TypeError\<close> unless \<open>v\<close> is a string; the path exists when it is a
  file or a directory of the world.
\<close>

definition http_client :: "env \<Rightarrow> (string \<times> json) list \<Rightarrow> world \<Rightarrow> (exn + (string \<times> json) list) \<times> world" where
  "http_client e kw w = (case client_fault e of Some x \<Rightarrow> (Inl x, w) | None \<Rightarrow> (Inr kw, w))"

definition create_http_client :: "env \<Rightarrow> json \<Rightarrow> world \<Rightarrow> (exn + (string \<times> json) list) \<times> world" where
  "create_http_client e config w =
     (case config_value config ''headers'' of
        Inl x \<Rightarrow> (Inl x, w)
      | Inr hs \<Rightarrow>
          (let (kw1, w1) =
             (case hs of
                None \<Rightarrow> ([], w)
              | Some h \<Rightarrow>
                  ([(''headers'', h)],
                   w\<lparr>logged := logged w @ [Info ''HTTP client configured with custom headers'']\<rparr>))
           in case config_value config ''ca_certs_path'' of
                Inl x \<Rightarrow> (Inl x, w1)
              | Inr None \<Rightarrow> http_client e kw1 w1
              | Inr (Some (JStr ca_path)) \<Rightarrow>
                  if ca_path \<in> dom (files w1) \<or> ca_path \<in> dirs w1 then
                    http_client e (kw1 @ [(''verify'', JStr ca_path)])
                      (w1\<lparr>logged := logged w1 @
                         [Info (''HTTP client configured with CA certificates: '' @ ca_path)]\<rparr>)
                  else
                    http_client e kw1
                      (w1\<lparr>logged := logged w1 @
                         [Warning (''CA certificates file not found: '' @ ca_path)]\<rparr>)
              | Inr (Some v) \<Rightarrow>
                  (Inl (TypeError ''expected str, bytes or os.PathLike object''), w1)))"

text \<open>
  The agent: the values \<^verbatim>\<open>create_agent\<close> passes to the library's constructors. The
  instructions (\<^verbatim>\<open>llm/prompts.py\<close>) go to the provider with every call and are part of
  what \<open>model_reply\<close> stands for.
\<close>

record agent =
  base_url :: json
  api_key :: json
  client_kwargs :: "(string \<times> json) list"
  model_name :: string
  retries :: nat

definition create_agent_try :: "env \<Rightarrow> world \<Rightarrow> (exn + agent) \<times> world" where
  "create_agent_try e w =
     (case load_llm_config e w of
        (Inl x, w1) \<Rightarrow> (Inl x, w1)
      | (Inr config, w1) \<Rightarrow>
          (case create_http_client e config w1 of
             (Inl x, w2) \<Rightarrow> (Inl x, w2)
           | (Inr kw, w2) \<Rightarrow>
               (case py_getitem config ''base_url'' of
                  Inl x \<Rightarrow> (Inl x, w2)
                | Inr b \<Rightarrow>
                    (case py_getitem config ''api_key'' of
                       Inl x \<Rightarrow> (Inl x, w2)
                     | Inr k \<Rightarrow>
                         (case sdk_fault e of
                            Some x \<Rightarrow> (Inl x, w2)
                          | None \<Rightarrow>
                              (Inr \<lparr>base_url = b, api_key = k, client_kwargs = kw,
                                    model_name = ''claude-sonnet-4'', retries = 3\<rparr>,
                               w2\<lparr>logged := logged w2 @ [Info ''LLM agent created successfully'']\<rparr>))))))"

definition create_agent :: "env \<Rightarrow> world \<Rightarrow> (exn + agent) \<times> world" where
  "create_agent e w =
     (case create_agent_try e w of
        (Inl x, w1) \<Rightarrow> (Inl (LLMConfigError (''Failed to create agent: '' @ str_exn x)), w1)
      | (Inr a, w1) \<Rightarrow> (Inr a, w1))"

text \<open>
  The module's last statement, run when \<^verbatim>\<open>main.py\<close> imports the module: a failure is
  logged and raised again.
\<close>

definition import_agent :: "env \<Rightarrow> world \<Rightarrow> (exn + agent) \<times> world" where
  "import_agent e w =
     (case create_agent e w of
        (Inl x, w1) \<Rightarrow>
          (Inl x, w1\<lparr>logged := logged w1 @ [Error (''Failed to initialize LLM agent: '' @ str_exn x)]\<rparr>)
      | (Inr a, w1) \<Rightarrow> (Inr a, w1))"

text \<open>\<^verbatim>\<open>agent.run(prompt)\<close>: the call is recorded, the provider answers.\<close>

definition agent_run :: "env \<Rightarrow> string \<Rightarrow> world \<Rightarrow> (exn + string) \<times> world" where
  "agent_run e prompt w =
     (model_reply e (length (agent_calls w)) prompt, w\<lparr>agent_calls := agent_calls w @ [prompt]\<rparr>)"

section \<open>The run controller (\<^verbatim>\<open>main.py\<close>)\<close>

definition target_url :: string where
  "target_url = ''https://digitaltoolkit.livingdesign.walmart.com/develop/react/''"

text \<open>The prompt of one page: the f-string of lines 67 to 73, with its line breaks and indentation.\<close>

definition extraction_prompt :: "string \<Rightarrow> string" where
  "extraction_prompt md =
     ''\<newline>'' @ replicate 20 (CHR '' '') @ ''Consider the markdown attached. You must extract\<newline>'' @
     replicate 20 (CHR '' '') @ ''useful information from it and return as formatted\<newline>'' @
     replicate 20 (CHR '' '') @ ''markdown.\<newline>'' @
     ''\<newline>'' @
     replicate 20 (CHR '' '') @ md @ ''\<newline>'' @
     replicate 16 (CHR '' '')"

definition section_title :: "nat \<Rightarrow> page \<Rightarrow> string" where
  "section_title i result = ''Page '' @ str_nat i @ '': '' @ url result"

text \<open>
  The body of the loop for the \<open>i\<close>-th result: an exception of the agent is printed and
  the loop continues; an exception of the writer leaves the loop.
\<close>

definition process_page ::
  "env \<Rightarrow> file_writer \<Rightarrow> string \<Rightarrow> nat \<times> page \<Rightarrow> world \<Rightarrow> (exn + unit) \<times> world" where
  "process_page e file_writer output_path ir w =
     (case ir of (i, result) \<Rightarrow>
       (case agent_run e (extraction_prompt (markdown result)) (print (Extracting (url result)) w) of
          (Inl x, w1) \<Rightarrow> (Inr (), print (ExtractError (url result) (str_exn x)) w1)
        | (Inr output, w1) \<Rightarrow>
            (case append_to_markdown e file_writer output_path output
                    (Some (section_title i result)) (print (Extracted (url result)) w1) of
               (Inl x, w2) \<Rightarrow> (Inl x, w2)
             | (Inr u, w2) \<Rightarrow> (Inr (), print (Appended (url result)) w2))))"

fun process_pages ::
  "env \<Rightarrow> file_writer \<Rightarrow> string \<Rightarrow> (nat \<times> page) list \<Rightarrow> world \<Rightarrow> (exn + unit) \<times> world" where
  "process_pages e file_writer output_path [] w = (Inr (), w)"
| "process_pages e file_writer output_path (ir # rest) w =
     (case process_page e file_writer output_path ir w of
        (Inl x, w1) \<Rightarrow> (Inl x, w1)
      | (Inr u, w1) \<Rightarrow> process_pages e file_writer output_path rest w1)"

definition run_title :: "page list \<Rightarrow> string" where
  "run_title crawl_results = ''Web Crawl Results - '' @ str_nat (length crawl_results) @ '' pages''"

text \<open>The statements inside the \<^verbatim>\<open>try\<close> of \<^verbatim>\<open>main\<close> (lines 46 to 90).\<close>

definition main_try :: "env \<Rightarrow> web_crawler \<Rightarrow> world \<Rightarrow> (exn + unit) \<times> world" where
  "main_try e crawler w =
     (case crawl e crawler target_url (print (StartingCrawl target_url) w) of
        (Inl x, w1) \<Rightarrow> (Inl x, w1)
      | (Inr crawl_results, w1) \<Rightarrow>
          (case FileWriter e ''out'' (print (CrawledPages (length crawl_results)) w1) of
             (Inl x, w2) \<Rightarrow> (Inl x, w2)
           | (Inr file_writer, w2) \<Rightarrow>
               (case initialize_streaming_markdown e file_writer ''walmart_design_toolkit''
                       (Some (run_title crawl_results)) True w2 of
                  (Inl x, w3) \<Rightarrow> (Inl x, w3)
                | (Inr output_path, w3) \<Rightarrow>
                    (case process_pages e file_writer output_path (enumerate 1 crawl_results)
                            (print (StreamingTo output_path) w3) of
                       (Inl x, w4) \<Rightarrow> (Inl x, w4)
                     | (Inr u, w4) \<Rightarrow>
                         (Inr (), print (SavedTo output_path) (print CrawlCompleted w4))))))"

definition main_crawler :: web_crawler where
  "main_crawler = WebCrawler 2 True True"

definition print_config :: "web_crawler \<Rightarrow> world \<Rightarrow> world" where
  "print_config crawler w =
     print Rule (print (TargetURL target_url) (print Blank
       (foldl (\<lambda>w' (k, v). print (ConfigItem k v) w') (print ConfigHeader w)
          (get_config_summary crawler))))"

definition main :: "env \<Rightarrow> world \<Rightarrow> world" where
  "main e w =
     (case main_try e main_crawler (print_config main_crawler w) of
        (Inl x, w1) \<Rightarrow> print (ErrorDuringCrawl (str_exn x)) w1
      | (Inr u, w1) \<Rightarrow> w1)"

text \<open>
  The states in which a run ends: \<open>Done_completed\<close> when the \<^verbatim>\<open>try\<close> of \<^verbatim>\<open>main\<close> ends
  normally, \<open>Done_failed\<close> when an exception reaches its handler.
\<close>

datatype run_state = Done_completed | Done_failed

definition final_state :: "env \<Rightarrow> world \<Rightarrow> run_state" where
  "final_state e w =
     (case main_try e main_crawler (print_config main_crawler w) of
        (Inl x, w1) \<Rightarrow> Done_failed
      | (Inr u, w1) \<Rightarrow> Done_completed)"

text \<open>
  The process: importing \<^verbatim>\<open>main.py\<close> imports the agent's module first; \<^verbatim>\<open>main\<close> runs
  only when the import went through.
\<close>

definition program :: "env \<Rightarrow> world \<Rightarrow> (exn + unit) \<times> world" where
  "program e w =
     (case import_agent e w of
        (Inl x, w1) \<Rightarrow> (Inl x, w1)
      | (Inr a, w1) \<Rightarrow> (Inr (), main e w1))"

section \<open>What a run is expected to leave behind\<close>

text \<open>
  The descriptions the theorems compare the program with. \<open>written e c ps\<close> lists, in
  the order of the pages, the position, the page and the extracted text of every page of
  \<open>ps\<close> whose extraction succeeds, when the first of these extractions is the \<open>c\<close>-th call
  of the agent; \<open>section_block\<close> is the text of one section; \<open>loop_lines\<close> are the lines
  the loop prints; \<open>extraction_of e c pages k\<close> is the outcome of the extraction of the
  \<open>k\<close>-th page (counted from one).
\<close>

fun written :: "env \<Rightarrow> nat \<Rightarrow> (nat \<times> page) list \<Rightarrow> (nat \<times> page \<times> string) list" where
  "written e c [] = []"
| "written e c ((i, result) # rest) =
     (case model_reply e c (extraction_prompt (markdown result)) of
        Inl x \<Rightarrow> written e (Suc c) rest
      | Inr output \<Rightarrow> (i, result, output) # written e (Suc c) rest)"

definition section_block :: "nat \<times> page \<times> string \<Rightarrow> string" where
  "section_block s =
     (case s of (i, result, output) \<Rightarrow>
        ''## '' @ section_title i result @ ''\<newline>\<newline>'' @ output @ ''\<newline>\<newline>'')"

fun loop_lines :: "env \<Rightarrow> nat \<Rightarrow> (nat \<times> page) list \<Rightarrow> line list" where
  "loop_lines e c [] = []"
| "loop_lines e c ((i, result) # rest) =
     (case model_reply e c (extraction_prompt (markdown result)) of
        Inl x \<Rightarrow> [Extracting (url result), ExtractError (url result) (str_exn x)]
      | Inr output \<Rightarrow> [Extracting (url result), Extracted (url result), Appended (url result)])
     @ loop_lines e (Suc c) rest"

definition extraction_of :: "env \<Rightarrow> nat \<Rightarrow> page list \<Rightarrow> nat \<Rightarrow> exn + string" where
  "extraction_of e c pages k =
     model_reply e (c + (k - 1)) (extraction_prompt (markdown (pages ! (k - 1))))"

definition artifact_path :: "env \<Rightarrow> world \<Rightarrow> string" where
  "artifact_path e w =
     ''out/walmart_design_toolkit_'' @ strftime_compact (clock e (clock_reads w)) @ ''.md''"

definition artifact_header :: "env \<Rightarrow> world \<Rightarrow> page list \<Rightarrow> string" where
  "artifact_header e w pages = header_text (run_title pages) (clock e (Suc (clock_reads w)))"

text \<open>An environment in which no file-system request fails.\<close>

definition no_faults :: "env \<Rightarrow> bool" where
  "no_faults e = (\<forall>n. os_fault e n = None)"

text \<open>Whether an extraction succeeded.\<close>

definition succeeded :: "exn + string \<Rightarrow> bool" where
  "succeeded r = (case r of Inl x \<Rightarrow> False | Inr output \<Rightarrow> True)"

text \<open>
  The final summary of a run: the two lines printed after the loop (lines 89 and 90),
  which are the last two lines of a completed run.
\<close>

definition final_summary :: "world \<Rightarrow> line list" where
  "final_summary w = drop (length (stdout w) - 2) (stdout w)"

fun is_appended :: "line \<Rightarrow> bool" where
  "is_appended (Appended u) = True"
| "is_appended l = False"

text \<open>
  The condition under which loading the configuration fails, in the words of the
  specification: the file is missing, holds invalid JSON, or lacks one of the two
  fields. A file that exists and cannot be read is none of the three.
\<close>

fun has_field :: "json \<Rightarrow> string \<Rightarrow> bool" where
  "has_field (JObj kvs) k = (k \<in> set (map fst kvs))"
| "has_field j k = False"

fun claimed_load_failure :: "config_file \<Rightarrow> bool" where
  "claimed_load_failure NotFound = True"
| "claimed_load_failure (BadJSON m) = True"
| "claimed_load_failure (Unreadable m) = False"
| "claimed_load_failure (Parsed j) = (\<not> (has_field j ''base_url'' \<and> has_field j ''api_key''))"

fun array_or_string :: "config_file \<Rightarrow> bool" where
  "array_or_string (Parsed (JArr xs)) = True"
| "array_or_string (Parsed (JStr s)) = True"
| "array_or_string c = False"

section \<open>A concrete run\<close>

text \<open>
  The scenario of the specification: three pages, the extraction of the second one
  raises. The world is empty at the start, no file-system request fails, and the clock
  stands at 2025-01-02 03:04:05.
\<close>

definition empty_world :: world where
  "empty_world =
     \<lparr>files = Map.empty, dirs = {}, stdout = [], logged = [], agent_calls = [],
      crawl_calls = [], os_calls = 0, clock_reads = 0\<rparr>"

definition example_pages :: "page list" where
  "example_pages =
     [\<lparr>url = ''https://example.com/docs/'', markdown = ''# Docs'', depth = 0\<rparr>,
      \<lparr>url = ''https://example.com/docs/a'', markdown = ''# A'', depth = 1\<rparr>,
      \<lparr>url = ''https://example.com/docs/b'', markdown = ''# B'', depth = 1\<rparr>]"

definition example_now :: datetime where
  "example_now = \<lparr>year = 2025, month = 1, day = 2, hour = 3, minute = 4, second = 5\<rparr>"

definition example_config :: json where
  "example_config = JObj [(''base_url'', JStr ''https://llm.example''), (''api_key'', JStr ''k'')]"

definition example_env :: env where
  "example_env =
     \<lparr>os_fault = (\<lambda>n. None),
      clock = (\<lambda>n. example_now),
      engine = (\<lambda>u c. Inr example_pages),
      model_reply = (\<lambda>n p. if n = 1 then Inl (Exception ''input too large'') else Inr ''extracted''),
      config_file = Parsed example_config,
      client_fault = None,
      sdk_fault = None\<rparr>"

text \<open>The same run with every extraction succeeding.\<close>

definition all_extracted_env :: env where
  "all_extracted_env = example_env\<lparr>model_reply := (\<lambda>n p. Inr ''extracted'')\<rparr>"

definition example_path :: string where
  "example_path = ''out/walmart_design_toolkit_20250102_030405.md''"

section \<open>Properties of the writer\<close>

lemma append_content_nonempty: "append_content c t \<noteq> []"
  by (simp add: append_content_def)

lemma open_file_ok:
  "os_fault e (os_calls w) = None \<Longrightarrow>
   open_file e p m w =
     (Inr \<lparr>f_path = p, f_buffer = []\<rparr>,
      w\<lparr>os_calls := Suc (os_calls w),
        files := (files w)(p \<mapsto> (case m of ModeW \<Rightarrow> [] | ModeA \<Rightarrow> content_of w p))\<rparr>)"
  by (cases m) (simp_all add: open_file_def os_request_def content_of_def)

lemma open_file_fault:
  "os_fault e (os_calls w) = Some msg \<Longrightarrow>
   open_file e p m w = (Inl (OSError msg), w\<lparr>os_calls := Suc (os_calls w)\<rparr>)"
  by (simp add: open_file_def os_request_def)

lemma f_flush_ok:
  "f_buffer f \<noteq> [] \<Longrightarrow> os_fault e (os_calls w) = None \<Longrightarrow>
   f_flush e f w =
     (Inr (f\<lparr>f_buffer := []\<rparr>),
      w\<lparr>os_calls := Suc (os_calls w),
        files := (files w)(f_path f \<mapsto> content_of w (f_path f) @ f_buffer f)\<rparr>)"
  by (simp add: f_flush_def os_request_def content_of_def)

lemma f_flush_empty: "f_buffer f = [] \<Longrightarrow> f_flush e f w = (Inr f, w)"
  by (simp add: f_flush_def)

lemma f_close_empty: "f_buffer f = [] \<Longrightarrow> f_close e f w = (Inr (), w)"
  by (simp add: f_close_def f_flush_empty)

lemma append_body_ok:
  assumes "s \<noteq> []" and "os_fault e (os_calls w) = None"
  shows "append_body e s \<lparr>f_path = p, f_buffer = []\<rparr> w =
     (Inr \<lparr>f_path = p, f_buffer = []\<rparr>,
      w\<lparr>os_calls := Suc (os_calls w), files := (files w)(p \<mapsto> content_of w p @ s)\<rparr>)"
  using assms by (simp add: append_body_def f_write_def f_flush_ok)

lemma append_to_markdown_ok:
  assumes "os_fault e (os_calls w) = None" and "os_fault e (Suc (os_calls w)) = None"
  shows "append_to_markdown e self p c t w =
     (Inr (),
      w\<lparr>os_calls := Suc (Suc (os_calls w)),
        files := (files w)(p \<mapsto> content_of w p @ append_content c t)\<rparr>)"
  using assms
  by (simp add: append_to_markdown_def with_open_def open_file_ok append_body_ok
      append_content_nonempty f_close_empty content_of_def)


lemma append_to_markdown_returns:
  assumes "append_to_markdown e self p c t w = (Inr u, w')"
  shows "os_fault e (os_calls w) = None \<and> os_fault e (Suc (os_calls w)) = None"
  using assms append_content_nonempty [of c t]
  by (auto simp: append_to_markdown_def with_open_def open_file_def os_request_def append_body_def
      f_write_def f_flush_def f_close_def split: option.splits prod.splits sum.splits if_splits)

lemma header_text_nonempty: "header_text t d \<noteq> []"
  by (simp add: header_text_def)

lemma initialize_ok:
  assumes "generate_filename e base ''.md'' ts w = (name, w1)"
    and "header_content e title w1 = (h, w2)"
    and "os_fault e (os_calls w) = None"
    and "h = [] \<or> os_fault e (Suc (os_calls w)) = None"
  shows "initialize_streaming_markdown e self base title ts w =
     (Inr (path_join (output_dir self) name),
      w2\<lparr>os_calls := (if h = [] then Suc (os_calls w) else Suc (Suc (os_calls w))),
         files := (files w)(path_join (output_dir self) name \<mapsto> h)\<rparr>)"
proof -
  have c: "os_calls w2 = os_calls w" "files w2 = files w"
    using assms(1,2)
    by (auto simp: generate_filename_def header_content_def datetime_now_def Let_def
        split: if_splits)
  show ?thesis
    using assms c
    by (auto simp: initialize_streaming_markdown_def with_open_def open_file_ok f_write_def
        f_close_def f_flush_def os_request_def content_of_def Let_def)
qed

section \<open>Properties of the loop and of the run\<close>

lemma sanitize_base: "sanitize ''walmart_design_toolkit'' = ''walmart_design_toolkit''"
  by (simp add: sanitize_def isalnum_def rstrip_def lower_char_def)

lemma section_title_nonempty: "section_title i r \<noteq> []"
  by (simp add: section_title_def)

lemma process_page_fail:
  assumes "model_reply e (length (agent_calls w)) (extraction_prompt (markdown r)) = Inl x"
  shows "process_page e fw p (i, r) w =
    (Inr (), w\<lparr>stdout := stdout w @ [Extracting (url r), ExtractError (url r) (str_exn x)],
               agent_calls := agent_calls w @ [extraction_prompt (markdown r)]\<rparr>)"
  using assms by (simp add: process_page_def agent_run_def print_def)

lemma process_page_ok:
  assumes "model_reply e (length (agent_calls w)) (extraction_prompt (markdown r)) = Inr out"
    and "os_fault e (os_calls w) = None" and "os_fault e (Suc (os_calls w)) = None"
  shows "process_page e fw p (i, r) w =
    (Inr (), w\<lparr>stdout := stdout w @ [Extracting (url r), Extracted (url r), Appended (url r)],
               agent_calls := agent_calls w @ [extraction_prompt (markdown r)],
               os_calls := Suc (Suc (os_calls w)),
               files := (files w)(p \<mapsto> content_of w p @ section_block (i, r, out))\<rparr>)"
  using assms
  by (simp add: process_page_def agent_run_def print_def append_to_markdown_ok content_of_def
      section_block_def append_content_def section_title_nonempty)

lemma process_pages_ok:
  assumes "no_faults e" and "files w p = Some old"
  shows "\<exists>w'. process_pages e fw p ips w = (Inr (), w') \<and>
      files w' = (files w)(p \<mapsto> old @ concat (map section_block (written e (length (agent_calls w)) ips))) \<and>
      stdout w' = stdout w @ loop_lines e (length (agent_calls w)) ips \<and>
      agent_calls w' = agent_calls w @ map (\<lambda>ir. extraction_prompt (markdown (snd ir))) ips \<and>
      dirs w' = dirs w \<and> crawl_calls w' = crawl_calls w \<and> logged w' = logged w \<and>
      clock_reads w' = clock_reads w"
  using assms
proof (induction ips arbitrary: w old)
  case Nil
  then show ?case by (simp add: fun_upd_idem)
next
  case (Cons ir rest)
  obtain i r where ir: "ir = (i, r)" by (cases ir)
  have nf: "\<And>n. os_fault e n = None" using Cons.prems(1) by (simp add: no_faults_def)
  show ?case
  proof (cases "model_reply e (length (agent_calls w)) (extraction_prompt (markdown r))")
    case (Inl x)
    let ?w1 = "w\<lparr>stdout := stdout w @ [Extracting (url r), ExtractError (url r) (str_exn x)],
               agent_calls := agent_calls w @ [extraction_prompt (markdown r)]\<rparr>"
    have "files ?w1 p = Some old" using Cons.prems(2) by simp
    from Cons.IH [OF Cons.prems(1) this] obtain w' where
      "process_pages e fw p rest ?w1 = (Inr (), w')"
      "files w' = (files ?w1)(p \<mapsto> old @ concat (map section_block (written e (length (agent_calls ?w1)) rest)))"
      "stdout w' = stdout ?w1 @ loop_lines e (length (agent_calls ?w1)) rest"
      "agent_calls w' = agent_calls ?w1 @ map (\<lambda>ir. extraction_prompt (markdown (snd ir))) rest"
      "dirs w' = dirs ?w1" "crawl_calls w' = crawl_calls ?w1" "logged w' = logged ?w1"
      "clock_reads w' = clock_reads ?w1" by blast
    then show ?thesis
      using Inl ir by (auto simp: process_page_fail fun_eq_iff)
  next
    case (Inr out)
    let ?w1 = "w\<lparr>stdout := stdout w @ [Extracting (url r), Extracted (url r), Appended (url r)],
               agent_calls := agent_calls w @ [extraction_prompt (markdown r)],
               os_calls := Suc (Suc (os_calls w)),
               files := (files w)(p \<mapsto> content_of w p @ section_block (i, r, out))\<rparr>"
    have "files ?w1 p = Some (old @ section_block (i, r, out))"
      using Cons.prems(2) by (simp add: content_of_def)
    from Cons.IH [OF Cons.prems(1) this] obtain w' where
      "process_pages e fw p rest ?w1 = (Inr (), w')"
      "files w' = (files ?w1)(p \<mapsto> (old @ section_block (i, r, out)) @ concat (map section_block (written e (length (agent_calls ?w1)) rest)))"
      "stdout w' = stdout ?w1 @ loop_lines e (length (agent_calls ?w1)) rest"
      "agent_calls w' = agent_calls ?w1 @ map (\<lambda>ir. extraction_prompt (markdown (snd ir))) rest"
      "dirs w' = dirs ?w1" "crawl_calls w' = crawl_calls ?w1" "logged w' = logged ?w1"
      "clock_reads w' = clock_reads ?w1" by blast
    then show ?thesis
      using Inr ir nf by (auto simp: process_page_ok fun_eq_iff)
  qed
qed

lemma FileWriter_ok:
  "os_fault e (os_calls w) = None \<Longrightarrow>
   FileWriter e d w = (Inr \<lparr>output_dir = d\<rparr>, w\<lparr>os_calls := Suc (os_calls w), dirs := insert d (dirs w)\<rparr>)"
  by (simp add: FileWriter_def ensure_output_directory_def os_request_def)

lemma run_title_nonempty: "run_title pages \<noteq> []"
  by (simp add: run_title_def)

lemma initialize_main_ok:
  assumes "no_faults e"
  shows "initialize_streaming_markdown e \<lparr>output_dir = ''out''\<rparr> ''walmart_design_toolkit''
           (Some (run_title pages)) True w =
     (Inr (artifact_path e w),
      w\<lparr>clock_reads := Suc (Suc (clock_reads w)), os_calls := Suc (Suc (os_calls w)),
        files := (files w)(artifact_path e w \<mapsto> artifact_header e w pages)\<rparr>)"
proof -
  have nf: "\<And>n. os_fault e n = None" using assms by (simp add: no_faults_def)
  have g: "generate_filename e ''walmart_design_toolkit'' ''.md'' True w =
      (''walmart_design_toolkit_'' @ strftime_compact (clock e (clock_reads w)) @ ''.md'',
       w\<lparr>clock_reads := Suc (clock_reads w)\<rparr>)"
    by (simp add: generate_filename_def sanitize_base datetime_now_def)
  have h: "header_content e (Some (run_title pages)) (w\<lparr>clock_reads := Suc (clock_reads w)\<rparr>) =
      (artifact_header e w pages, w\<lparr>clock_reads := Suc (Suc (clock_reads w))\<rparr>)"
    by (simp add: header_content_def run_title_nonempty datetime_now_def artifact_header_def)
  have ne: "artifact_header e w pages \<noteq> []"
    by (simp add: artifact_header_def header_text_nonempty)
  show ?thesis
    using initialize_ok [OF g h, of "\<lparr>output_dir = ''out''\<rparr>"] nf ne
    by (simp add: path_join_def artifact_path_def)
qed

lemma map_snd_enumerate: "map (\<lambda>ir. f (snd ir)) (enumerate n xs) = map f xs"
  by (induction xs arbitrary: n) simp_all

lemma main_try_ok:
  assumes "no_faults e" and "engine e target_url (wc_config crawler) = Inr pages"
  shows "\<exists>w'. main_try e crawler w = (Inr (), w') \<and>
      files w' = (files w)(artifact_path e w \<mapsto> artifact_header e w pages @
         concat (map section_block (written e (length (agent_calls w)) (enumerate 1 pages)))) \<and>
      stdout w' = stdout w @
         [StartingCrawl target_url, CrawledPages (length pages), StreamingTo (artifact_path e w)] @
         loop_lines e (length (agent_calls w)) (enumerate 1 pages) @
         [CrawlCompleted, SavedTo (artifact_path e w)] \<and>
      agent_calls w' = agent_calls w @ map (\<lambda>r. extraction_prompt (markdown r)) pages \<and>
      dirs w' = insert ''out'' (dirs w) \<and> crawl_calls w' = crawl_calls w @ [target_url] \<and>
      logged w' = logged w"
proof -
  have nf: "\<And>n. os_fault e n = None" using assms(1) by (simp add: no_faults_def)
  let ?w1 = "w\<lparr>stdout := stdout w @ [StartingCrawl target_url], crawl_calls := crawl_calls w @ [target_url]\<rparr>"
  have c: "crawl e crawler target_url (print (StartingCrawl target_url) w) = (Inr pages, ?w1)"
    using assms(2) by (simp add: crawl_def print_def)
  let ?w2 = "?w1\<lparr>stdout := stdout ?w1 @ [CrawledPages (length pages)],
                os_calls := Suc (os_calls w), dirs := insert ''out'' (dirs w)\<rparr>"
  have f: "FileWriter e ''out'' (print (CrawledPages (length pages)) ?w1) = (Inr \<lparr>output_dir = ''out''\<rparr>, ?w2)"
    using nf by (simp add: FileWriter_ok print_def)
  let ?p = "artifact_path e w"
  let ?w3 = "?w2\<lparr>clock_reads := Suc (Suc (clock_reads w)), os_calls := Suc (Suc (os_calls ?w2)),
        files := (files w)(?p \<mapsto> artifact_header e w pages)\<rparr>"
  have i: "initialize_streaming_markdown e \<lparr>output_dir = ''out''\<rparr> ''walmart_design_toolkit''
           (Some (run_title pages)) True ?w2 = (Inr ?p, ?w3)"
    using initialize_main_ok [OF assms(1), of pages ?w2]
    by (simp add: artifact_path_def artifact_header_def)
  let ?w4 = "print (StreamingTo ?p) ?w3"
  have "files ?w4 ?p = Some (artifact_header e w pages)" by (simp add: print_def)
  from process_pages_ok [OF assms(1) this, of "\<lparr>output_dir = ''out''\<rparr>" "enumerate 1 pages"]
  obtain w5 where l: "process_pages e \<lparr>output_dir = ''out''\<rparr> ?p (enumerate 1 pages) ?w4 = (Inr (), w5)"
      "files w5 = (files ?w4)(?p \<mapsto> artifact_header e w pages @ concat (map section_block (written e (length (agent_calls ?w4)) (enumerate 1 pages))))"
      "stdout w5 = stdout ?w4 @ loop_lines e (length (agent_calls ?w4)) (enumerate 1 pages)"
      "agent_calls w5 = agent_calls ?w4 @ map (\<lambda>ir. extraction_prompt (markdown (snd ir))) (enumerate 1 pages)"
      "dirs w5 = dirs ?w4" "crawl_calls w5 = crawl_calls ?w4" "logged w5 = logged ?w4"
    by blast
  have m: "map (\<lambda>ir. extraction_prompt (markdown (snd ir))) (enumerate 1 pages) =
      map (\<lambda>r. extraction_prompt (markdown r)) pages"
    by (rule map_snd_enumerate)
  have "main_try e crawler w = (Inr (), print (SavedTo ?p) (print CrawlCompleted w5))"
    unfolding main_try_def c using f i l(1) by simp
  then show ?thesis
    using l(2-) m by (auto simp: print_def fun_eq_iff)
qed

section \<open>Properties of the second initialisation, of the banner and of the configuration\<close>

lemma initialize_returns:
  assumes "initialize_streaming_markdown e self base title ts w = (Inr p, w')"
  shows "p = path_join (output_dir self) (fst (generate_filename e base ''.md'' ts w)) \<and>
         files w' = (files w)(p \<mapsto> fst (header_content e title (snd (generate_filename e base ''.md'' ts w))))"
proof -
  obtain name w1 where g: "generate_filename e base ''.md'' ts w = (name, w1)"
    by (cases "generate_filename e base ''.md'' ts w")
  obtain h w2 where h: "header_content e title w1 = (h, w2)"
    by (cases "header_content e title w1")
  have c: "files w2 = files w"
    using g h
    by (auto simp: generate_filename_def header_content_def datetime_now_def Let_def
        split: if_splits)
  show ?thesis
    using assms g h c
    by (auto simp: initialize_streaming_markdown_def with_open_def open_file_def f_write_def
        f_close_def f_flush_def os_request_def content_of_def Let_def
        split: option.splits prod.splits sum.splits if_splits)
qed

lemma header_content_value:
  "fst (header_content e title (snd (generate_filename e base ext ts w))) =
     (if truthy title
      then header_text (the title) (clock e (if ts then Suc (clock_reads w) else clock_reads w))
      else [])"
  by (simp add: header_content_def generate_filename_def datetime_now_def)

lemma print_config_frame:
  "files (print_config c w) = files w \<and> dirs (print_config c w) = dirs w \<and>
   agent_calls (print_config c w) = agent_calls w \<and> crawl_calls (print_config c w) = crawl_calls w \<and>
   os_calls (print_config c w) = os_calls w \<and> clock_reads (print_config c w) = clock_reads w \<and>
   logged (print_config c w) = logged w"
  by (simp add: print_config_def get_config_summary_def print_def)

lemma load_llm_config_try_world:
  "load_llm_config_try e w = (Inl x, w') \<Longrightarrow> w' = w"
  by (auto simp: load_llm_config_try_def split: config_file.splits sum.splits if_splits)

lemma load_llm_config_fails_world:
  assumes "fst (load_llm_config e w) = Inl x"
  shows "snd (load_llm_config e w) = w \<and> (\<exists>m. x = LLMConfigError m)"
proof (cases "load_llm_config_try e w")
  case (Pair r w')
  show ?thesis
  proof (cases r)
    case (Inl y)
    with Pair have "w' = w" by (simp add: load_llm_config_try_world)
    with Pair Inl assms show ?thesis
      by (cases y) (auto simp: load_llm_config_def)
  next
    case (Inr c)
    with Pair assms show ?thesis by (simp add: load_llm_config_def)
  qed
qed

lemma program_aborts:
  assumes "fst (load_llm_config e w) = Inl x"
  shows "program e w =
     (Inl (LLMConfigError (''Failed to create agent: '' @ str_exn x)),
      w\<lparr>logged := logged w @
         [Error (''Failed to initialize LLM agent: '' @ ''Failed to create agent: '' @ str_exn x)]\<rparr>)"
proof -
  have "load_llm_config e w = (Inl x, w)"
    using assms load_llm_config_fails_world [OF assms] by (cases "load_llm_config e w") simp
  then show ?thesis
    by (simp add: program_def import_agent_def create_agent_def create_agent_try_def)
qed

lemma load_fails_iff:
  assumes "\<not> array_or_string (config_file e)"
  shows "(\<exists>x. fst (load_llm_config e w) = Inl x) \<longleftrightarrow>
         (claimed_load_failure (config_file e) \<or> (\<exists>m. config_file e = Unreadable m))"
proof (cases "config_file e")
  case NotFound
  then show ?thesis by (simp add: load_llm_config_def load_llm_config_try_def)
next
  case (Unreadable m)
  then show ?thesis by (simp add: load_llm_config_def load_llm_config_try_def)
next
  case (BadJSON m)
  then show ?thesis by (simp add: load_llm_config_def load_llm_config_try_def)
next
  case (Parsed j)
  then show ?thesis
    using assms
    by (cases j) (auto simp: load_llm_config_def load_llm_config_try_def)
qed

section \<open>Properties of a completed run\<close>

lemma main_ok:
  assumes "no_faults e" and "engine e target_url (wc_config main_crawler) = Inr pages"
  shows "final_state e w = Done_completed \<and>
      files (main e w) = (files w)(artifact_path e w \<mapsto> artifact_header e w pages @
         concat (map section_block (written e (length (agent_calls w)) (enumerate 1 pages)))) \<and>
      stdout (main e w) = stdout (print_config main_crawler w) @
         [StartingCrawl target_url, CrawledPages (length pages), StreamingTo (artifact_path e w)] @
         loop_lines e (length (agent_calls w)) (enumerate 1 pages) @
         [CrawlCompleted, SavedTo (artifact_path e w)] \<and>
      agent_calls (main e w) = agent_calls w @ map (\<lambda>r. extraction_prompt (markdown r)) pages \<and>
      dirs (main e w) = insert ''out'' (dirs w) \<and>
      crawl_calls (main e w) = crawl_calls w @ [target_url]"
proof -
  let ?w0 = "print_config main_crawler w"
  have fr: "files ?w0 = files w" "dirs ?w0 = dirs w" "agent_calls ?w0 = agent_calls w"
      "crawl_calls ?w0 = crawl_calls w" "clock_reads ?w0 = clock_reads w"
    using print_config_frame [of main_crawler w] by simp_all
  have ap: "artifact_path e ?w0 = artifact_path e w" "artifact_header e ?w0 pages = artifact_header e w pages"
    using fr by (simp_all add: artifact_path_def artifact_header_def)
  from main_try_ok [OF assms, of ?w0] obtain w' where
    "main_try e main_crawler ?w0 = (Inr (), w')"
    "files w' = (files ?w0)(artifact_path e ?w0 \<mapsto> artifact_header e ?w0 pages @
         concat (map section_block (written e (length (agent_calls ?w0)) (enumerate 1 pages))))"
    "stdout w' = stdout ?w0 @
         [StartingCrawl target_url, CrawledPages (length pages), StreamingTo (artifact_path e ?w0)] @
         loop_lines e (length (agent_calls ?w0)) (enumerate 1 pages) @
         [CrawlCompleted, SavedTo (artifact_path e ?w0)]"
    "agent_calls w' = agent_calls ?w0 @ map (\<lambda>r. extraction_prompt (markdown r)) pages"
    "dirs w' = insert ''out'' (dirs ?w0)" "crawl_calls w' = crawl_calls ?w0 @ [target_url]"
    by blast
  then show ?thesis
    using fr ap by (simp add: main_def final_state_def)
qed

lemma written_member:
  "(i, r, out) \<in> set (written e c (enumerate n pages)) \<longleftrightarrow>
     (\<exists>j<length pages. i = n + j \<and> r = pages ! j \<and>
        model_reply e (c + j) (extraction_prompt (markdown (pages ! j))) = Inr out)"
proof (induction pages arbitrary: n c)
  case Nil
  then show ?case by simp
next
  case (Cons x xs)
  have "(\<exists>j<Suc (length xs). P j) \<longleftrightarrow> (P 0 \<or> (\<exists>j<length xs. P (Suc j)))" for P
    by (metis less_Suc_eq_0_disj)
  note ex = this
  show ?case
    by (cases "model_reply e c (extraction_prompt (markdown x))")
       (auto simp: Cons.IH ex)
qed

lemma written_positions:
  "map fst (written e c (enumerate n pages)) =
     filter (\<lambda>k. succeeded (model_reply e (c + (k - n)) (extraction_prompt (markdown (pages ! (k - n))))))
       [n..<n + length pages]"
proof (induction pages arbitrary: n c)
  case Nil
  then show ?case by simp
next
  case (Cons x xs)
  have u: "[n..<n + length (x # xs)] = n # [Suc n..<Suc n + length xs]"
    by (simp add: upt_rec)
  have f: "filter (\<lambda>k. succeeded (model_reply e (c + (k - n)) (extraction_prompt (markdown ((x # xs) ! (k - n))))))
             [Suc n..<Suc n + length xs] =
           filter (\<lambda>k. succeeded (model_reply e (Suc c + (k - Suc n)) (extraction_prompt (markdown (xs ! (k - Suc n))))))
             [Suc n..<Suc n + length xs]"
  proof (rule filter_cong [OF refl])
    fix k assume "k \<in> set [Suc n..<Suc n + length xs]"
    then have "k - n = Suc (k - Suc n)" by auto
    then show "succeeded (model_reply e (c + (k - n)) (extraction_prompt (markdown ((x # xs) ! (k - n))))) =
        succeeded (model_reply e (Suc c + (k - Suc n)) (extraction_prompt (markdown (xs ! (k - Suc n)))))"
      by simp
  qed
  have ih: "map fst (written e (Suc c) (enumerate (Suc n) xs)) =
      filter (\<lambda>k. succeeded (model_reply e (c + (k - n)) (extraction_prompt (markdown ((x # xs) ! (k - n))))))
        [Suc n..<Suc n + length xs]"
    using Cons.IH [of "Suc c" "Suc n"] f by simp
  show ?case
    unfolding u
    by (cases "model_reply e c (extraction_prompt (markdown x))")
       (simp_all add: ih succeeded_def del: upt_Suc)
qed

lemma loop_lines_append:
  "loop_lines e c (xs @ ys) = loop_lines e c xs @ loop_lines e (c + length xs) ys"
  by (induction xs arbitrary: c) auto

lemma loop_lines_split:
  assumes "j < length pages"
  shows "loop_lines e c (enumerate n pages) =
     loop_lines e c (enumerate n (take j pages)) @
     loop_lines e (c + j) [(n + j, pages ! j)] @
     loop_lines e (c + Suc j) (enumerate (n + Suc j) (drop (Suc j) pages))"
proof -
  have "pages = take j pages @ pages ! j # drop (Suc j) pages"
    using assms by (rule id_take_nth_drop)
  then have "enumerate n pages =
      enumerate n (take j pages) @ (n + j, pages ! j) # enumerate (n + Suc j) (drop (Suc j) pages)"
    using assms by (metis add_Suc_right enumerate_append_eq enumerate_simps(2) length_take min.absorb2 less_imp_le)
  then show ?thesis
    using assms by (simp add: loop_lines_append)
qed

lemma appended_lines:
  "length (filter is_appended (loop_lines e c ips)) = length (written e c ips)"
proof (induction ips arbitrary: c)
  case Nil
  then show ?case by simp
next
  case (Cons ir rest)
  obtain i r where "ir = (i, r)" by (cases ir)
  then show ?case
    by (cases "model_reply e c (extraction_prompt (markdown r))") (simp_all add: Cons.IH)
qed

lemma process_page_appends:
  assumes "files w p = Some old"
  shows "\<exists>sfx. files (snd (process_page e fw p ir w)) p = Some (old @ sfx)"
  using assms
  by (cases ir)
     (auto simp: process_page_def agent_run_def print_def append_to_markdown_def with_open_def
        open_file_def os_request_def append_body_def f_write_def f_flush_def f_close_def
        content_of_def
        split: sum.splits option.splits prod.splits)

lemma process_pages_appends:
  assumes "files w p = Some old"
  shows "\<exists>sfx. files (snd (process_pages e fw p ips w)) p = Some (old @ sfx)"
  using assms
proof (induction ips arbitrary: w old)
  case Nil
  then show ?case by simp
next
  case (Cons ir rest)
  obtain r w1 where s: "process_page e fw p ir w = (r, w1)"
    by (cases "process_page e fw p ir w")
  from process_page_appends [OF Cons.prems, of e fw ir] s obtain sfx
    where 1: "files w1 p = Some (old @ sfx)" by auto
  show ?case
  proof (cases r)
    case (Inl x)
    with s 1 show ?thesis by auto
  next
    case (Inr u)
    from Cons.IH [OF 1] obtain sfx' where
      "files (snd (process_pages e fw p rest w1)) p = Some ((old @ sfx) @ sfx')" by blast
    with s Inr show ?thesis by auto
  qed
qed

lemma extraction_of_member:
  "(j, r, out) \<in> set (written e c (enumerate 1 pages)) \<longleftrightarrow>
     (1 \<le> j \<and> j \<le> length pages \<and> r = pages ! (j - 1) \<and> extraction_of e c pages j = Inr out)"
proof -
  have "(\<exists>i<length pages. j = 1 + i \<and> r = pages ! i \<and>
          model_reply e (c + i) (extraction_prompt (markdown (pages ! i))) = Inr out) \<longleftrightarrow>
        (1 \<le> j \<and> j \<le> length pages \<and> r = pages ! (j - 1) \<and> extraction_of e c pages j = Inr out)"
    by (auto simp: extraction_of_def intro: exI [of _ "j - 1"])
  then show ?thesis by (simp only: written_member)
qed

lemma written_positions_main:
  "map fst (written e c (enumerate 1 pages)) =
     filter (\<lambda>k. succeeded (extraction_of e c pages k)) [1..<Suc (length pages)]"
  using written_positions [of e c 1 pages] by (simp add: extraction_of_def)

lemma final_summary_append: "stdout w = A @ [a, b] \<Longrightarrow> final_summary w = [a, b]"
  by (simp add: final_summary_def)

section \<open>The concrete run, evaluated\<close>

lemma example_no_faults: "no_faults example_env" "no_faults all_extracted_env"
  by (simp_all add: no_faults_def example_env_def all_extracted_env_def)

lemma example_engine:
  "engine example_env target_url (wc_config main_crawler) = Inr example_pages"
  "engine all_extracted_env target_url (wc_config main_crawler) = Inr example_pages"
  by (simp_all add: example_env_def all_extracted_env_def)

lemma example_artifact_path:
  "artifact_path example_env empty_world = example_path"
  "artifact_path all_extracted_env empty_world = example_path"
  by code_simp+

lemma example_artifact_header:
  "artifact_header example_env empty_world example_pages =
     ''# Web Crawl Results - 3 pages\<newline>\<newline>*Generated on: 2025-01-02 03:04:05*\<newline>\<newline>---\<newline>\<newline>''"
  by code_simp

lemma example_written:
  "written example_env 0 (enumerate 1 example_pages) =
     [(1, example_pages ! 0, ''extracted''), (3, example_pages ! 2, ''extracted'')]"
  by code_simp

lemma all_extracted_written:
  "written all_extracted_env 0 (enumerate 1 example_pages) =
     [(1, example_pages ! 0, ''extracted''), (2, example_pages ! 1, ''extracted''),
      (3, example_pages ! 2, ''extracted'')]"
  by code_simp

lemma example_blocks:
  "section_block (1, example_pages ! 0, ''extracted'') =
     ''## Page 1: https://example.com/docs/\<newline>\<newline>extracted\<newline>\<newline>''"
  "section_block (3, example_pages ! 2, ''extracted'') =
     ''## Page 3: https://example.com/docs/b\<newline>\<newline>extracted\<newline>\<newline>''"
  by code_simp+

lemma example_loop_lines:
  "loop_lines example_env 0 (enumerate 1 example_pages) =
     [Extracting ''https://example.com/docs/'', Extracted ''https://example.com/docs/'',
      Appended ''https://example.com/docs/'',
      Extracting ''https://example.com/docs/a'',
      ExtractError ''https://example.com/docs/a'' ''input too large'',
      Extracting ''https://example.com/docs/b'', Extracted ''https://example.com/docs/b'',
      Appended ''https://example.com/docs/b'']"
  by code_simp

lemma example_banner:
  "stdout (print_config main_crawler empty_world) =
     [ConfigHeader, ConfigItem ''max_depth'' ''2'', ConfigItem ''include_external'' ''True'',
      ConfigItem ''verbose'' ''True'', ConfigItem ''strategy'' ''BFSDeepCrawlStrategy'',
      ConfigItem ''scraping_strategy'' ''LXMLWebScrapingStrategy'', Blank,
      TargetURL target_url, Rule]"
  by code_simp

lemma example_calls: "length (agent_calls empty_world) = 0"
  by (simp add: empty_world_def)

lemma example_length: "length example_pages = 3"
  by (simp add: example_pages_def)

lemma example_main_file:
  "files (main example_env empty_world) example_path =
     Some (''# Web Crawl Results - 3 pages\<newline>\<newline>*Generated on: 2025-01-02 03:04:05*\<newline>\<newline>---\<newline>\<newline>'' @
           ''## Page 1: https://example.com/docs/\<newline>\<newline>extracted\<newline>\<newline>'' @
           ''## Page 3: https://example.com/docs/b\<newline>\<newline>extracted\<newline>\<newline>'')"
  using main_ok [OF example_no_faults(1) example_engine(1), of empty_world]
  by (simp add: example_calls example_artifact_path example_artifact_header example_written
      example_blocks del: One_nat_def)

lemma example_main_stdout:
  "stdout (main example_env empty_world) =
     [ConfigHeader, ConfigItem ''max_depth'' ''2'', ConfigItem ''include_external'' ''True'',
      ConfigItem ''verbose'' ''True'', ConfigItem ''strategy'' ''BFSDeepCrawlStrategy'',
      ConfigItem ''scraping_strategy'' ''LXMLWebScrapingStrategy'', Blank,
      TargetURL target_url, Rule,
      StartingCrawl target_url, CrawledPages 3, StreamingTo example_path,
      Extracting ''https://example.com/docs/'', Extracted ''https://example.com/docs/'',
      Appended ''https://example.com/docs/'',
      Extracting ''https://example.com/docs/a'',
      ExtractError ''https://example.com/docs/a'' ''input too large'',
      Extracting ''https://example.com/docs/b'', Extracted ''https://example.com/docs/b'',
      Appended ''https://example.com/docs/b'',
      CrawlCompleted, SavedTo example_path]"
  using main_ok [OF example_no_faults(1) example_engine(1), of empty_world]
  by (simp add: example_calls example_artifact_path example_loop_lines example_banner
      example_length del: One_nat_def)

text \<open>
  A failing write is fatal to the run: when the request that opens the artifact for the
  first section fails, the exception of the writer leaves the loop and the run ends in
  \<open>Done_failed\<close>.
\<close>

lemma write_failure_is_fatal:
  "final_state (example_env\<lparr>os_fault := (\<lambda>n. if n = 3 then Some ''No space left on device'' else None)\<rparr>)
     empty_world = Done_failed"
  by (simp add: final_state_def main_try_def crawl_def example_env_def print_def FileWriter_def
      ensure_output_directory_def os_request_def initialize_streaming_markdown_def
      generate_filename_def datetime_now_def header_content_def run_title_def with_open_def
      open_file_def f_write_def f_close_def f_flush_def header_text_def example_pages_def
      process_page_def agent_run_def append_to_markdown_def append_body_def append_content_def
      section_title_def empty_world_def print_config_def get_config_summary_def Let_def
      content_of_def)

section \<open>The claims about the writer\<close>

text \<open>
  Claim C10. Called without a title (\<^verbatim>\<open>title = None\<close>), \<^verbatim>\<open>initialize_streaming_markdown\<close>
  still creates or truncates the target file and returns its path, and it writes no header:
  the file is left empty, the only file-system request is the one that opens the file, and
  the clock is read for the file name only (no generation timestamp). The call returns
  whenever that one request succeeds.
\<close>

theorem initialize_without_title:
  assumes "os_fault e (os_calls w) = None"
  shows "\<exists>w'. initialize_streaming_markdown e self base_filename None timestamp w =
           (Inr (path_join (output_dir self) (fst (generate_filename e base_filename ''.md'' timestamp w))), w') \<and>
         files w' =
           (files w)(path_join (output_dir self) (fst (generate_filename e base_filename ''.md'' timestamp w)) \<mapsto> []) \<and>
         os_calls w' = Suc (os_calls w) \<and>
         clock_reads w' = (if timestamp then Suc (clock_reads w) else clock_reads w)"
proof -
  obtain name w1 where g: "generate_filename e base_filename ''.md'' timestamp w = (name, w1)"
    by (cases "generate_filename e base_filename ''.md'' timestamp w")
  have h: "header_content e None w1 = ([], w1)"
    by (simp add: header_content_def)
  have c: "clock_reads w1 = (if timestamp then Suc (clock_reads w) else clock_reads w)"
    using g by (auto simp: generate_filename_def datetime_now_def split: if_splits)
  show ?thesis
    using initialize_ok [OF g h assms, of self] c g by simp
qed

text \<open>
  Witness for C10: a file that held text is empty after the call.
\<close>

theorem initialize_without_title_witness:
  "\<exists>w'. initialize_streaming_markdown example_env \<lparr>output_dir = ''out''\<rparr> ''Crawl Notes'' None False
           (empty_world\<lparr>files := [''out/crawl_notes.md'' \<mapsto> ''old text'']\<rparr>) =
           (Inr ''out/crawl_notes.md'', w') \<and>
         files w' = [''out/crawl_notes.md'' \<mapsto> []] \<and> os_calls w' = 1 \<and> clock_reads w' = 0"
proof -
  let ?w = "empty_world\<lparr>files := [''out/crawl_notes.md'' \<mapsto> ''old text'']\<rparr>"
  have f: "os_fault example_env (os_calls ?w) = None"
    by (simp add: example_env_def)
  have s: "sanitize ''Crawl Notes'' = ''crawl_notes''"
    by code_simp
  have n: "generate_filename example_env ''Crawl Notes'' ''.md'' False ?w = (''crawl_notes.md'', ?w)"
    by (simp add: generate_filename_def s)
  have "\<exists>w'. initialize_streaming_markdown example_env \<lparr>output_dir = ''out''\<rparr> ''Crawl Notes'' None False ?w =
           (Inr ''out/crawl_notes.md'', w') \<and>
         files w' = (files ?w)(''out/crawl_notes.md'' \<mapsto> []) \<and>
         os_calls w' = Suc (os_calls ?w) \<and> clock_reads w' = clock_reads ?w"
    using initialize_without_title [OF f, of "\<lparr>output_dir = ''out''\<rparr>" "''Crawl Notes''" False]
    by (simp add: n path_join_def)
  then show ?thesis
    by (simp add: empty_world_def)
qed

text \<open>
  Claim C8, as amended. For every call with a non-empty section title (\<open>truthy title\<close>:
  the title is given and is not the empty string) and content, \<^verbatim>\<open>append_to_markdown\<close>
  appends to the file exactly the subsection header line of the title, the content and the
  blank-line separator; when the \<^verbatim>\<open>with\<close> body ends, after \<^verbatim>\<open>f.flush()\<close>, the buffer of the
  file object is empty and the file already holds the whole section, so the closing of the
  file has nothing left to write. The call returns whenever its two file-system requests
  (the open and the flush) succeed.
\<close>

theorem append_to_markdown_section:
  assumes "truthy title"
    and "os_fault e (os_calls w) = None" and "os_fault e (Suc (os_calls w)) = None"
  shows "\<exists>f w1 f' w'.
      open_file e file_path ModeA w = (Inr f, w1) \<and>
      append_body e (''## '' @ the title @ ''\<newline>\<newline>'' @ content @ ''\<newline>\<newline>'') f w1 = (Inr f', w') \<and>
      f_buffer f' = [] \<and>
      files w' =
        (files w)(file_path \<mapsto>
           content_of w file_path @ ''## '' @ the title @ ''\<newline>\<newline>'' @ content @ ''\<newline>\<newline>'') \<and>
      f_close e f' w' = (Inr (), w') \<and>
      append_to_markdown e self file_path content title w = (Inr (), w')"
proof -
  let ?s = "''## '' @ the title @ ''\<newline>\<newline>'' @ content @ ''\<newline>\<newline>''"
  let ?f = "\<lparr>f_path = file_path, f_buffer = []\<rparr>"
  let ?w1 = "w\<lparr>os_calls := Suc (os_calls w),
               files := (files w)(file_path \<mapsto> content_of w file_path)\<rparr>"
  let ?w' = "w\<lparr>os_calls := Suc (Suc (os_calls w)),
               files := (files w)(file_path \<mapsto> content_of w file_path @ ?s)\<rparr>"
  have s: "append_content content title = ?s"
    using assms(1) by (simp add: append_content_def)
  have 1: "open_file e file_path ModeA w = (Inr ?f, ?w1)"
    using assms(2) by (simp add: open_file_ok)
  have 2: "append_body e ?s ?f ?w1 = (Inr ?f, ?w')"
    using assms(3) append_body_ok [of ?s e ?w1 file_path] by (simp add: content_of_def)
  have 3: "f_close e ?f ?w' = (Inr (), ?w')"
    by (simp add: f_close_empty)
  have 4: "append_to_markdown e self file_path content title w = (Inr (), ?w')"
    using append_to_markdown_ok [OF assms(2,3), of self file_path content title] s by simp
  show ?thesis
    using 1 2 3 4 by auto
qed

text \<open>
  Witness for C8: one section appended to a file that holds a title line.
\<close>

theorem append_to_markdown_section_witness:
  "\<exists>w'. append_to_markdown example_env \<lparr>output_dir = ''out''\<rparr> ''out/a.md'' ''body'' (Some ''Page 1: u'')
           (empty_world\<lparr>files := [''out/a.md'' \<mapsto> ''# T\<newline>'']\<rparr>) = (Inr (), w') \<and>
         files w' = [''out/a.md'' \<mapsto> ''# T\<newline>## Page 1: u\<newline>\<newline>body\<newline>\<newline>'']"
proof -
  let ?w = "empty_world\<lparr>files := [''out/a.md'' \<mapsto> ''# T\<newline>'']\<rparr>"
  have t: "truthy (Some ''Page 1: u'')" by simp
  have f: "os_fault example_env (os_calls ?w) = None" "os_fault example_env (Suc (os_calls ?w)) = None"
    by (simp_all add: example_env_def)
  have c: "content_of ?w ''out/a.md'' = ''# T\<newline>''"
    by (simp add: content_of_def)
  obtain w' where "append_to_markdown example_env \<lparr>output_dir = ''out''\<rparr> ''out/a.md'' ''body'' (Some ''Page 1: u'') ?w = (Inr (), w')"
    and "files w' = (files ?w)(''out/a.md'' \<mapsto> content_of ?w ''out/a.md'' @ ''## '' @ the (Some ''Page 1: u'') @ ''\<newline>\<newline>'' @ ''body'' @ ''\<newline>\<newline>'')"
    using append_to_markdown_section [OF t f, of "''out/a.md''" "''body''" "\<lparr>output_dir = ''out''\<rparr>"]
    by blast
  then show ?thesis
    by (simp add: c)
qed

text \<open>
  Counterexample to C8 as stated: the empty string is a section title the function can
  be called with, and for it no header line is written (\<^verbatim>\<open>if section_title:\<close> is false):
  the call returns, the file holds only the content and the separator, and that is not the
  header line of the title followed by the content and the separator.
\<close>

theorem append_to_markdown_empty_title:
  "append_to_markdown example_env \<lparr>output_dir = ''out''\<rparr> ''out/a.md'' ''body'' (Some [])
      empty_world =
     (Inr (), empty_world\<lparr>files := [''out/a.md'' \<mapsto> ''body\<newline>\<newline>''], os_calls := 2\<rparr>) \<and>
   files (snd (append_to_markdown example_env \<lparr>output_dir = ''out''\<rparr> ''out/a.md'' ''body'' (Some [])
      empty_world)) ''out/a.md'' \<noteq>
     Some (content_of empty_world ''out/a.md'' @ ''## '' @ [] @ ''\<newline>\<newline>'' @ ''body'' @ ''\<newline>\<newline>'')"
  by (simp add: append_to_markdown_def with_open_def open_file_def os_request_def append_body_def
      append_content_def f_write_def f_flush_def f_close_def content_of_def empty_world_def
      example_env_def)

text \<open>
  Claim C9. Calling \<^verbatim>\<open>initialize_streaming_markdown\<close> a second time on the same target path
  truncates and restarts the artifact: whatever was written after the first call, after the
  second call the file holds exactly the second call's header (the title line, the
  generation timestamp read during the second call, and the separator) and nothing else.
  A second call without a title leaves the file empty.
\<close>

theorem initialize_twice_restarts:
  assumes "initialize_streaming_markdown e self base title1 ts1 w0 = (Inr p, w1)"
    and "files w2 p = Some (the (files w1 p) @ later)"
    and "initialize_streaming_markdown e self base title2 ts2 w2 = (Inr p, w3)"
  shows "files w3 p =
     Some (if truthy title2
           then ''# '' @ the title2 @ ''\<newline>\<newline>'' @
                ''*Generated on: '' @
                strftime_iso (clock e (if ts2 then Suc (clock_reads w2) else clock_reads w2)) @
                ''*\<newline>\<newline>'' @ ''---\<newline>\<newline>''
           else [])"
  using initialize_returns [OF assms(3)]
  by (simp add: header_content_value header_text_def)

text \<open>
  Witness for C9: initialise, append one section, initialise again on the same path.
\<close>

theorem initialize_twice_restarts_witness:
  "\<exists>w1 w2 w3.
     initialize_streaming_markdown example_env \<lparr>output_dir = ''out''\<rparr> ''run'' (Some ''First'') False
       empty_world = (Inr ''out/run.md'', w1) \<and>
     append_to_markdown example_env \<lparr>output_dir = ''out''\<rparr> ''out/run.md'' ''body'' (Some ''S'') w1 =
       (Inr (), w2) \<and>
     files w2 ''out/run.md'' =
       Some (''# First\<newline>\<newline>*Generated on: 2025-01-02 03:04:05*\<newline>\<newline>---\<newline>\<newline>'' @ ''## S\<newline>\<newline>body\<newline>\<newline>'') \<and>
     initialize_streaming_markdown example_env \<lparr>output_dir = ''out''\<rparr> ''run'' (Some ''Second'') False
       w2 = (Inr ''out/run.md'', w3) \<and>
     files w3 ''out/run.md'' =
       Some ''# Second\<newline>\<newline>*Generated on: 2025-01-02 03:04:05*\<newline>\<newline>---\<newline>\<newline>''"
proof -
  let ?fw = "\<lparr>output_dir = ''out''\<rparr>"
  have s: "sanitize ''run'' = ''run''" by code_simp
  have iso: "strftime_iso example_now = ''2025-01-02 03:04:05''" by code_simp
  have ck: "\<And>n. clock example_env n = example_now"
    by (simp add: example_env_def)
  have nf: "\<And>n. os_fault example_env n = None" by (simp add: example_env_def)
  have g: "\<And>w. generate_filename example_env ''run'' ''.md'' False w = (''run.md'', w)"
    by (simp add: generate_filename_def s)
  have h: "\<And>t w. t \<noteq> [] \<Longrightarrow> header_content example_env (Some t) w =
      (''# '' @ t @ ''\<newline>\<newline>*Generated on: 2025-01-02 03:04:05*\<newline>\<newline>---\<newline>\<newline>'',
       w\<lparr>clock_reads := Suc (clock_reads w)\<rparr>)"
    by (simp add: header_content_def datetime_now_def header_text_def ck iso)
  obtain w1 where 1: "initialize_streaming_markdown example_env ?fw ''run'' (Some ''First'') False
       empty_world = (Inr ''out/run.md'', w1)"
    and f1: "files w1 = (files empty_world)(''out/run.md'' \<mapsto> ''# First\<newline>\<newline>*Generated on: 2025-01-02 03:04:05*\<newline>\<newline>---\<newline>\<newline>'')"
    and o1: "os_calls w1 = Suc (Suc (os_calls empty_world))"
    using initialize_ok [where self = ?fw, OF g [of empty_world] h [of "''First''" empty_world]] nf
    by (simp add: path_join_def)
  obtain w2 where 2: "append_to_markdown example_env ?fw ''out/run.md'' ''body'' (Some ''S'') w1 = (Inr (), w2)"
    and f2: "files w2 = (files w1)(''out/run.md'' \<mapsto> content_of w1 ''out/run.md'' @ append_content ''body'' (Some ''S''))"
    using append_to_markdown_ok [of example_env w1 ?fw "''out/run.md''" "''body''" "Some ''S''"] nf
    by simp
  have c2: "files w2 ''out/run.md'' =
       Some (''# First\<newline>\<newline>*Generated on: 2025-01-02 03:04:05*\<newline>\<newline>---\<newline>\<newline>'' @ ''## S\<newline>\<newline>body\<newline>\<newline>'')"
    using f1 f2 by (simp add: content_of_def append_content_def)
  obtain w3 where 3: "initialize_streaming_markdown example_env ?fw ''run'' (Some ''Second'') False
       w2 = (Inr ''out/run.md'', w3)"
    using initialize_ok [where self = ?fw, OF g [of w2] h [of "''Second''" w2]] nf
    by (simp add: path_join_def)
  have p: "files w2 ''out/run.md'' = Some (the (files w1 ''out/run.md'') @ ''## S\<newline>\<newline>body\<newline>\<newline>'')"
    using c2 f1 by simp
  have "files w3 ''out/run.md'' =
       Some ''# Second\<newline>\<newline>*Generated on: 2025-01-02 03:04:05*\<newline>\<newline>---\<newline>\<newline>''"
    using initialize_twice_restarts [OF 1 p 3] by (simp add: ck iso)
  then show ?thesis
    using 1 2 c2 3 by blast
qed

section \<open>The claims about the crawler and the configuration\<close>

text \<open>
  Claim C3. The crawler configuration holds the filter chain of exactly the URL-pattern
  filter, the domain filter and the content-type filter, in that order, so a link is
  admitted only when all three accept it; the chain is the same whatever the value of
  \<^verbatim>\<open>include_external\<close>, which only reaches the strategy's own flag.
\<close>

theorem filter_chain_composition:
  "filter_chain (deep_crawl_strategy (wc_config (WebCrawler d x v))) =
     [URLPatternFilter URL_PATTERNS, DomainFilter ALLOWED_DOMAINS,
      ContentTypeFilter ALLOWED_CONTENT_TYPES] \<and>
   chain_admits accepts (filter_chain (deep_crawl_strategy (wc_config (WebCrawler d x v)))) link =
     (accepts (URLPatternFilter URL_PATTERNS) link \<and> accepts (DomainFilter ALLOWED_DOMAINS) link \<and>
      accepts (ContentTypeFilter ALLOWED_CONTENT_TYPES) link) \<and>
   filter_chain (deep_crawl_strategy (wc_config (WebCrawler d True v))) =
     filter_chain (deep_crawl_strategy (wc_config (WebCrawler d False v))) \<and>
   include_external (deep_crawl_strategy (wc_config (WebCrawler d x v))) = x"
  by (simp add: WebCrawler_def create_crawler_config_def)

text \<open>
  Claim C5. When the engine raises for the root URL, \<^verbatim>\<open>crawl\<close> raises an exception whose
  message names the URL, and the run ends in \<open>Done_failed\<close> at once: after the line that
  announces the crawl only the error is printed, the agent is never called, no file-system
  request is made (the writer is never built or initialised), and no directory or file is
  created or changed.
\<close>

theorem crawl_failure_aborts:
  assumes "engine e target_url (wc_config main_crawler) = Inl x"
  shows "fst (crawl e main_crawler target_url w) =
           Inl (Exception (''Failed to crawl '' @ target_url @ '': '' @ str_exn x)) \<and>
         final_state e w = Done_failed \<and>
         stdout (main e w) = stdout (print_config main_crawler w) @
           [StartingCrawl target_url,
            ErrorDuringCrawl (''Failed to crawl '' @ target_url @ '': '' @ str_exn x)] \<and>
         agent_calls (main e w) = agent_calls w \<and>
         os_calls (main e w) = os_calls w \<and>
         clock_reads (main e w) = clock_reads w \<and>
         dirs (main e w) = dirs w \<and>
         files (main e w) = files w"
  using assms print_config_frame [of main_crawler w]
  by (simp add: crawl_def main_def main_try_def final_state_def print_def)

text \<open>
  Witness for C5: the engine cannot resolve the host.
\<close>

theorem crawl_failure_aborts_witness:
  "final_state (example_env\<lparr>engine := \<lambda>u c. Inl (OSError ''name not resolved'')\<rparr>) empty_world = Done_failed \<and>
   last (stdout (main (example_env\<lparr>engine := \<lambda>u c. Inl (OSError ''name not resolved'')\<rparr>) empty_world)) =
     ErrorDuringCrawl (''Failed to crawl '' @ target_url @ '': name not resolved'') \<and>
   agent_calls (main (example_env\<lparr>engine := \<lambda>u c. Inl (OSError ''name not resolved'')\<rparr>) empty_world) = [] \<and>
   os_calls (main (example_env\<lparr>engine := \<lambda>u c. Inl (OSError ''name not resolved'')\<rparr>) empty_world) = 0 \<and>
   dirs (main (example_env\<lparr>engine := \<lambda>u c. Inl (OSError ''name not resolved'')\<rparr>) empty_world) = {} \<and>
   files (main (example_env\<lparr>engine := \<lambda>u c. Inl (OSError ''name not resolved'')\<rparr>) empty_world) = Map.empty"
proof -
  let ?e = "example_env\<lparr>engine := \<lambda>u c. Inl (OSError ''name not resolved'')\<rparr>"
  have h: "engine ?e target_url (wc_config main_crawler) = Inl (OSError ''name not resolved'')"
    by simp
  show ?thesis
    using crawl_failure_aborts [OF h, of empty_world]
    by (simp add: empty_world_def)
qed

text \<open>
  Claim C4, as amended. Loading the configuration fails if the file is missing, cannot be
  read, holds invalid JSON, or holds a JSON object that lacks \<^verbatim>\<open>base_url\<close> or
  \<^verbatim>\<open>api_key\<close> (or a number, a boolean or null), and only then, for every configuration
  that is not a JSON array or string. Every failure is an \<^verbatim>\<open>LLMConfigError\<close> and ends the
  process during the import of the agent's module: no crawl is started, the agent is not
  called, no file-system request is made, and no directory or file is created or changed.
\<close>

theorem load_llm_config_failure:
  "(\<not> array_or_string (config_file e) \<longrightarrow>
      ((\<exists>x. fst (load_llm_config e w) = Inl x) \<longleftrightarrow>
       (claimed_load_failure (config_file e) \<or> (\<exists>m. config_file e = Unreadable m)))) \<and>
   (\<forall>x. fst (load_llm_config e w) = Inl x \<longrightarrow>
      (\<exists>m. x = LLMConfigError m) \<and>
      (\<exists>m. fst (program e w) = Inl (LLMConfigError m)) \<and>
      crawl_calls (snd (program e w)) = crawl_calls w \<and>
      agent_calls (snd (program e w)) = agent_calls w \<and>
      os_calls (snd (program e w)) = os_calls w \<and>
      dirs (snd (program e w)) = dirs w \<and>
      files (snd (program e w)) = files w \<and>
      stdout (snd (program e w)) = stdout w)"
proof (intro conjI impI allI)
  assume "\<not> array_or_string (config_file e)"
  then show "(\<exists>x. fst (load_llm_config e w) = Inl x) \<longleftrightarrow>
       (claimed_load_failure (config_file e) \<or> (\<exists>m. config_file e = Unreadable m))"
    by (rule load_fails_iff)
next
  fix x assume a: "fst (load_llm_config e w) = Inl x"
  show "\<exists>m. x = LLMConfigError m"
    using load_llm_config_fails_world [OF a] by simp
  show "\<exists>m. fst (program e w) = Inl (LLMConfigError m)"
    by (simp add: program_aborts [OF a])
  show "crawl_calls (snd (program e w)) = crawl_calls w"
    by (simp add: program_aborts [OF a])
  show "agent_calls (snd (program e w)) = agent_calls w"
    by (simp add: program_aborts [OF a])
  show "os_calls (snd (program e w)) = os_calls w"
    by (simp add: program_aborts [OF a])
  show "dirs (snd (program e w)) = dirs w"
    by (simp add: program_aborts [OF a])
  show "files (snd (program e w)) = files w"
    by (simp add: program_aborts [OF a])
  show "stdout (snd (program e w)) = stdout w"
    by (simp add: program_aborts [OF a])
qed

text \<open>
  Witness for C4: a configuration object without \<^verbatim>\<open>api_key\<close>.
\<close>

theorem load_llm_config_failure_witness:
  "(\<exists>x. fst (load_llm_config (example_env\<lparr>config_file := Parsed (JObj [(''base_url'', JStr ''u'')])\<rparr>) empty_world) = Inl x) \<and>
   (\<exists>m. fst (program (example_env\<lparr>config_file := Parsed (JObj [(''base_url'', JStr ''u'')])\<rparr>) empty_world) = Inl (LLMConfigError m)) \<and>
   crawl_calls (snd (program (example_env\<lparr>config_file := Parsed (JObj [(''base_url'', JStr ''u'')])\<rparr>) empty_world)) = [] \<and>
   dirs (snd (program (example_env\<lparr>config_file := Parsed (JObj [(''base_url'', JStr ''u'')])\<rparr>) empty_world)) = {} \<and>
   files (snd (program (example_env\<lparr>config_file := Parsed (JObj [(''base_url'', JStr ''u'')])\<rparr>) empty_world)) = Map.empty"
proof -
  let ?e = "example_env\<lparr>config_file := Parsed (JObj [(''base_url'', JStr ''u'')])\<rparr>"
  have a: "\<not> array_or_string (config_file ?e)" by simp
  have c: "claimed_load_failure (config_file ?e)" by simp
  note t = load_llm_config_failure [of ?e empty_world]
  from t a c obtain x where x: "fst (load_llm_config ?e empty_world) = Inl x" by blast
  with t show ?thesis
    by (auto simp: empty_world_def)
qed

text \<open>
  Counterexample to C4 as stated: a JSON array that holds the two names as elements has
  neither field, and loading it succeeds; a file that exists and cannot be read is not
  missing, and loading it fails.
\<close>

theorem load_llm_config_counterexample:
  "fst (load_llm_config (example_env\<lparr>config_file := Parsed (JArr [JStr ''base_url'', JStr ''api_key''])\<rparr>) empty_world) =
     Inr (JArr [JStr ''base_url'', JStr ''api_key'']) \<and>
   claimed_load_failure (Parsed (JArr [JStr ''base_url'', JStr ''api_key''])) \<and>
   fst (load_llm_config (example_env\<lparr>config_file := Unreadable ''Permission denied''\<rparr>) empty_world) =
     Inl (LLMConfigError ''Failed to load configuration: Permission denied'') \<and>
   \<not> claimed_load_failure (Unreadable ''Permission denied'')"
  by (simp add: load_llm_config_def load_llm_config_try_def)

section \<open>The claims about the run\<close>

text \<open>
  Claim C1. For every page sequence the crawl returns, if the extraction of page \<open>k\<close>
  raises, the run prints the error and goes on with page \<open>k + 1\<close> (the lines of the
  remaining pages follow the error line at once) without appending a section for page
  \<open>k\<close>: the artifact holds the header and the sections of the successfully extracted
  pages, every one of them and none at position \<open>k\<close>, and the run ends in
  \<open>Done_completed\<close>. The environment is one in which no file-system request fails (a
  failing write ends the run in \<open>Done_failed\<close>, whatever the extractions did).
\<close>

theorem extraction_failure_skips_page:
  assumes "no_faults e" and "engine e target_url (wc_config main_crawler) = Inr pages"
    and "1 \<le> k" and "k \<le> length pages"
    and "extraction_of e (length (agent_calls w)) pages k = Inl x"
  shows "final_state e w = Done_completed \<and>
     files (main e w) (artifact_path e w) =
       Some (artifact_header e w pages @
             concat (map section_block (written e (length (agent_calls w)) (enumerate 1 pages)))) \<and>
     k \<notin> set (map fst (written e (length (agent_calls w)) (enumerate 1 pages))) \<and>
     (\<forall>j out. 1 \<le> j \<and> j \<le> length pages \<and> extraction_of e (length (agent_calls w)) pages j = Inr out \<longrightarrow>
        (j, pages ! (j - 1), out) \<in> set (written e (length (agent_calls w)) (enumerate 1 pages))) \<and>
     stdout (main e w) =
       stdout (print_config main_crawler w) @
       [StartingCrawl target_url, CrawledPages (length pages), StreamingTo (artifact_path e w)] @
       loop_lines e (length (agent_calls w)) (enumerate 1 (take (k - 1) pages)) @
       [Extracting (url (pages ! (k - 1))), ExtractError (url (pages ! (k - 1))) (str_exn x)] @
       loop_lines e (length (agent_calls w) + k) (enumerate (Suc k) (drop k pages)) @
       [CrawlCompleted, SavedTo (artifact_path e w)]"
proof -
  let ?c = "length (agent_calls w)"
  note m = main_ok [OF assms(1,2), of w]
  have 1: "final_state e w = Done_completed" using m by simp
  have 2: "files (main e w) (artifact_path e w) =
       Some (artifact_header e w pages @ concat (map section_block (written e ?c (enumerate 1 pages))))"
    using m by simp
  have 3: "k \<notin> set (map fst (written e ?c (enumerate 1 pages)))"
    unfolding written_positions_main using assms(5) by (simp add: succeeded_def)
  have 4: "\<forall>j out. 1 \<le> j \<and> j \<le> length pages \<and> extraction_of e ?c pages j = Inr out \<longrightarrow>
        (j, pages ! (j - 1), out) \<in> set (written e ?c (enumerate 1 pages))"
    using extraction_of_member [of _ _ _ e ?c pages] by blast
  have j: "k - 1 < length pages" using assms(3,4) by simp
  have r: "model_reply e (?c + (k - 1)) (extraction_prompt (markdown (pages ! (k - 1)))) = Inl x"
    using assms(5) by (simp add: extraction_of_def)
  have "loop_lines e ?c (enumerate 1 pages) =
     loop_lines e ?c (enumerate 1 (take (k - 1) pages)) @
     loop_lines e (?c + (k - 1)) [(1 + (k - 1), pages ! (k - 1))] @
     loop_lines e (?c + Suc (k - 1)) (enumerate (1 + Suc (k - 1)) (drop (Suc (k - 1)) pages))"
    by (rule loop_lines_split [OF j])
  then have l: "loop_lines e ?c (enumerate 1 pages) =
     loop_lines e ?c (enumerate 1 (take (k - 1) pages)) @
     [Extracting (url (pages ! (k - 1))), ExtractError (url (pages ! (k - 1))) (str_exn x)] @
     loop_lines e (?c + k) (enumerate (Suc k) (drop k pages))"
    using assms(3) r by simp
  have 5: "stdout (main e w) =
       stdout (print_config main_crawler w) @
       [StartingCrawl target_url, CrawledPages (length pages), StreamingTo (artifact_path e w)] @
       loop_lines e ?c (enumerate 1 (take (k - 1) pages)) @
       [Extracting (url (pages ! (k - 1))), ExtractError (url (pages ! (k - 1))) (str_exn x)] @
       loop_lines e (?c + k) (enumerate (Suc k) (drop k pages)) @
       [CrawlCompleted, SavedTo (artifact_path e w)]"
    using m l by simp
  show ?thesis using 1 2 3 4 5 by blast
qed

text \<open>
  Witness for C1: three pages, the extraction of the second raises.
\<close>

theorem extraction_failure_skips_page_witness:
  "final_state example_env empty_world = Done_completed \<and>
   files (main example_env empty_world) example_path =
     Some (''# Web Crawl Results - 3 pages\<newline>\<newline>*Generated on: 2025-01-02 03:04:05*\<newline>\<newline>---\<newline>\<newline>'' @
           ''## Page 1: https://example.com/docs/\<newline>\<newline>extracted\<newline>\<newline>'' @
           ''## Page 3: https://example.com/docs/b\<newline>\<newline>extracted\<newline>\<newline>'') \<and>
   2 \<notin> set (map fst (written example_env 0 (enumerate 1 example_pages))) \<and>
   (3, example_pages ! 2, ''extracted'') \<in> set (written example_env 0 (enumerate 1 example_pages))"
proof -
  have k: "(1::nat) \<le> 2" "2 \<le> length example_pages"
    by (simp_all add: example_pages_def)
  have x: "extraction_of example_env (length (agent_calls empty_world)) example_pages 2 =
      Inl (Exception ''input too large'')"
    by code_simp
  have y: "extraction_of example_env 0 example_pages 3 = Inr ''extracted''"
    by code_simp
  have l: "length example_pages = 3" by (simp add: example_pages_def)
  show ?thesis
    using extraction_failure_skips_page [OF example_no_faults(1) example_engine(1) k x] y
    by (simp add: example_calls example_artifact_path example_artifact_header example_written
        example_blocks l del: One_nat_def)
qed

text \<open>
  Claim C2. When \<open>N\<close> of the crawled pages are extracted successfully, the artifact holds
  the header followed by exactly \<open>N\<close> section blocks, those of the successful pages in the
  order in which the pages were processed, each block being its section title line, the
  extracted text and a blank line; and the loop only ever appends: whatever a pass over
  any pages does, also when it fails, the content the file had before is a prefix of the
  content it has afterwards. The file content is stated for an environment in which no
  file-system request fails.
\<close>

theorem sections_in_processing_order:
  assumes "no_faults e" and "engine e target_url (wc_config main_crawler) = Inr pages"
  shows "files (main e w) (artifact_path e w) =
       Some (artifact_header e w pages @
             concat (map section_block (written e (length (agent_calls w)) (enumerate 1 pages)))) \<and>
     map fst (written e (length (agent_calls w)) (enumerate 1 pages)) =
       filter (\<lambda>k. succeeded (extraction_of e (length (agent_calls w)) pages k)) [1..<Suc (length pages)] \<and>
     length (written e (length (agent_calls w)) (enumerate 1 pages)) =
       length (filter (\<lambda>k. succeeded (extraction_of e (length (agent_calls w)) pages k)) [1..<Suc (length pages)]) \<and>
     section_block (i, r, out) = ''## '' @ section_title i r @ ''\<newline>\<newline>'' @ out @ ''\<newline>\<newline>'' \<and>
     (files w1 p = Some old \<longrightarrow>
        (\<exists>sfx. files (snd (process_pages e' fw p ips w1)) p = Some (old @ sfx)))"
proof -
  let ?c = "length (agent_calls w)"
  have 1: "files (main e w) (artifact_path e w) =
       Some (artifact_header e w pages @ concat (map section_block (written e ?c (enumerate 1 pages))))"
    using main_ok [OF assms, of w] by simp
  have 2: "map fst (written e ?c (enumerate 1 pages)) =
       filter (\<lambda>k. succeeded (extraction_of e ?c pages k)) [1..<Suc (length pages)]"
    by (rule written_positions_main)
  have 3: "length (written e ?c (enumerate 1 pages)) =
       length (filter (\<lambda>k. succeeded (extraction_of e ?c pages k)) [1..<Suc (length pages)])"
    using arg_cong [OF 2, of length] by simp
  have 4: "section_block (i, r, out) = ''## '' @ section_title i r @ ''\<newline>\<newline>'' @ out @ ''\<newline>\<newline>''"
    by (simp add: section_block_def)
  have 5: "files w1 p = Some old \<longrightarrow>
        (\<exists>sfx. files (snd (process_pages e' fw p ips w1)) p = Some (old @ sfx))"
    using process_pages_appends by blast
  show ?thesis using 1 2 3 4 5 by blast
qed

text \<open>
  Witness for C2: pages 1 and 3 of three are extracted.
\<close>

theorem sections_in_processing_order_witness:
  "files (main example_env empty_world) example_path =
     Some (''# Web Crawl Results - 3 pages\<newline>\<newline>*Generated on: 2025-01-02 03:04:05*\<newline>\<newline>---\<newline>\<newline>'' @
           concat [''## Page 1: https://example.com/docs/\<newline>\<newline>extracted\<newline>\<newline>'',
                   ''## Page 3: https://example.com/docs/b\<newline>\<newline>extracted\<newline>\<newline>'']) \<and>
   filter (\<lambda>k. succeeded (extraction_of example_env 0 example_pages k)) [1..<Suc (length example_pages)] =
     [1, 3] \<and>
   length (written example_env 0 (enumerate 1 example_pages)) = 2"
proof -
  note t = sections_in_processing_order [OF example_no_faults(1) example_engine(1), of empty_world]
  have 1: "files (main example_env empty_world) example_path =
     Some (''# Web Crawl Results - 3 pages\<newline>\<newline>*Generated on: 2025-01-02 03:04:05*\<newline>\<newline>---\<newline>\<newline>'' @
           concat [''## Page 1: https://example.com/docs/\<newline>\<newline>extracted\<newline>\<newline>'',
                   ''## Page 3: https://example.com/docs/b\<newline>\<newline>extracted\<newline>\<newline>''])"
    using t [THEN conjunct1]
    by (simp add: example_calls example_artifact_path example_artifact_header example_written
        example_blocks del: One_nat_def)
  have 2: "filter (\<lambda>k. succeeded (extraction_of example_env 0 example_pages k))
      [1..<Suc (length example_pages)] = [1, 3]"
    using t [THEN conjunct2, THEN conjunct1]
    by (simp add: example_calls example_written del: upt_Suc One_nat_def)
  have 3: "length (written example_env 0 (enumerate 1 example_pages)) = 2"
    using t [THEN conjunct2, THEN conjunct2, THEN conjunct1] 2
    by (simp add: example_calls del: upt_Suc One_nat_def)
  show ?thesis using 1 2 3 by blast
qed

text \<open>
  Claim C6, as amended. For every page whose extraction succeeds, the section appended for
  it has the title \<^verbatim>\<open>Page j: \<close> followed by the page's URL, where \<open>j\<close> is the position of
  the page in the crawl results, counted from one (skipped pages included).
\<close>

theorem section_title_of_page:
  assumes "no_faults e" and "engine e target_url (wc_config main_crawler) = Inr pages"
    and "1 \<le> j" and "j \<le> length pages"
    and "extraction_of e (length (agent_calls w)) pages j = Inr out"
  shows "(j, pages ! (j - 1), out) \<in> set (written e (length (agent_calls w)) (enumerate 1 pages)) \<and>
     section_block (j, pages ! (j - 1), out) =
       ''## Page '' @ str_nat j @ '': '' @ url (pages ! (j - 1)) @ ''\<newline>\<newline>'' @ out @ ''\<newline>\<newline>'' \<and>
     files (main e w) (artifact_path e w) =
       Some (artifact_header e w pages @
             concat (map section_block (written e (length (agent_calls w)) (enumerate 1 pages)))) \<and>
     enumerate 1 pages ! (j - 1) = (j, pages ! (j - 1)) \<and>
     (\<forall>w1 fw p. length (agent_calls w1) = length (agent_calls w) + (j - 1) \<longrightarrow>
        (\<exists>w2. process_page e fw p (j, pages ! (j - 1)) w1 = (Inr (), w2) \<and>
              files w2 = (files w1)(p \<mapsto> content_of w1 p @
                ''## Page '' @ str_nat j @ '': '' @ url (pages ! (j - 1)) @ ''\<newline>\<newline>'' @ out @ ''\<newline>\<newline>'')))"
proof -
  let ?c = "length (agent_calls w)"
  have nf: "\<And>n. os_fault e n = None" using assms(1) by (simp add: no_faults_def)
  have 1: "(j, pages ! (j - 1), out) \<in> set (written e ?c (enumerate 1 pages))"
    using assms(3,4,5) extraction_of_member [of j "pages ! (j - 1)" out e ?c pages] by blast
  have 2: "section_block (j, pages ! (j - 1), out) =
       ''## Page '' @ str_nat j @ '': '' @ url (pages ! (j - 1)) @ ''\<newline>\<newline>'' @ out @ ''\<newline>\<newline>''"
    by (simp add: section_block_def section_title_def)
  have 3: "files (main e w) (artifact_path e w) =
       Some (artifact_header e w pages @ concat (map section_block (written e ?c (enumerate 1 pages))))"
    using main_ok [OF assms(1,2), of w] by simp
  have 4: "enumerate 1 pages ! (j - 1) = (j, pages ! (j - 1))"
    using assms(3,4) by (simp add: nth_enumerate_eq)
  have 5: "\<forall>w1 fw p. length (agent_calls w1) = ?c + (j - 1) \<longrightarrow>
        (\<exists>w2. process_page e fw p (j, pages ! (j - 1)) w1 = (Inr (), w2) \<and>
              files w2 = (files w1)(p \<mapsto> content_of w1 p @
                ''## Page '' @ str_nat j @ '': '' @ url (pages ! (j - 1)) @ ''\<newline>\<newline>'' @ out @ ''\<newline>\<newline>''))"
  proof (intro allI impI)
    fix w1 :: world and fw :: file_writer and p :: string
    assume a: "length (agent_calls w1) = ?c + (j - 1)"
    have "model_reply e (length (agent_calls w1)) (extraction_prompt (markdown (pages ! (j - 1)))) = Inr out"
      using assms(5) a by (simp add: extraction_of_def)
    from process_page_ok [of e w1 "pages ! (j - 1)" out fw p j] this nf
    show "\<exists>w2. process_page e fw p (j, pages ! (j - 1)) w1 = (Inr (), w2) \<and>
              files w2 = (files w1)(p \<mapsto> content_of w1 p @
                ''## Page '' @ str_nat j @ '': '' @ url (pages ! (j - 1)) @ ''\<newline>\<newline>'' @ out @ ''\<newline>\<newline>'')"
      using 2 by simp
  qed
  show ?thesis using 1 2 3 4 5 by blast
qed

text \<open>
  Witness for C6: the third page keeps the number 3 although the second page was skipped.
\<close>

theorem section_title_of_page_witness:
  "(3, example_pages ! 2, ''extracted'') \<in> set (written example_env 0 (enumerate 1 example_pages)) \<and>
   section_block (3, example_pages ! 2, ''extracted'') =
     ''## Page 3: https://example.com/docs/b\<newline>\<newline>extracted\<newline>\<newline>'' \<and>
   enumerate 1 example_pages ! 2 = (3, example_pages ! 2)"
proof -
  have j: "(1::nat) \<le> 3" "3 \<le> length example_pages"
    by (simp_all add: example_pages_def)
  have y: "extraction_of example_env (length (agent_calls empty_world)) example_pages 3 = Inr ''extracted''"
    by code_simp
  have n: "str_nat 3 = ''3''" by code_simp
  have u: "url (example_pages ! 2) = ''https://example.com/docs/b''" by code_simp
  show ?thesis
    using section_title_of_page [OF example_no_faults(1) example_engine(1) j y]
    by (simp add: example_calls n u del: One_nat_def)
qed

text \<open>
  Counterexample to C6 as stated: the title of the first section is not the URL of the
  page but \<^verbatim>\<open>Page 1: \<close> followed by it.
\<close>

theorem section_title_is_not_the_url:
  "section_title 1 (example_pages ! 0) = ''Page 1: https://example.com/docs/'' \<and>
   url (example_pages ! 0) = ''https://example.com/docs/'' \<and>
   section_title 1 (example_pages ! 0) \<noteq> url (example_pages ! 0) \<and>
   files (main example_env empty_world) example_path =
     Some (''# Web Crawl Results - 3 pages\<newline>\<newline>*Generated on: 2025-01-02 03:04:05*\<newline>\<newline>---\<newline>\<newline>'' @
           ''## Page 1: https://example.com/docs/\<newline>\<newline>extracted\<newline>\<newline>'' @
           ''## Page 3: https://example.com/docs/b\<newline>\<newline>extracted\<newline>\<newline>'')"
proof -
  have 1: "section_title 1 (example_pages ! 0) = ''Page 1: https://example.com/docs/''"
    by code_simp
  have 2: "url (example_pages ! 0) = ''https://example.com/docs/''"
    by code_simp
  show ?thesis
    using example_main_file by (simp add: 1 2 del: One_nat_def)
qed

text \<open>
  Claim C7, as amended. After the last page the run is in \<open>Done_completed\<close> and prints
  the completion line and the path of the artifact, and nothing else. The number of pages
  crawled is printed once, before the extraction starts; the number of sections written
  is not printed: it is the number of \<^verbatim>\<open>Appended\<close> progress lines, and at most the number
  of pages.
\<close>

theorem completed_run_report:
  assumes "no_faults e" and "engine e target_url (wc_config main_crawler) = Inr pages"
  shows "final_state e w = Done_completed \<and>
     stdout (main e w) =
       stdout (print_config main_crawler w) @
       [StartingCrawl target_url, CrawledPages (length pages), StreamingTo (artifact_path e w)] @
       loop_lines e (length (agent_calls w)) (enumerate 1 pages) @
       [CrawlCompleted, SavedTo (artifact_path e w)] \<and>
     final_summary (main e w) = [CrawlCompleted, SavedTo (artifact_path e w)] \<and>
     length (filter is_appended (loop_lines e (length (agent_calls w)) (enumerate 1 pages))) =
       length (written e (length (agent_calls w)) (enumerate 1 pages)) \<and>
     length (written e (length (agent_calls w)) (enumerate 1 pages)) \<le> length pages"
proof -
  let ?c = "length (agent_calls w)"
  note m = main_ok [OF assms, of w]
  have 1: "final_state e w = Done_completed" using m by simp
  have 2: "stdout (main e w) =
       stdout (print_config main_crawler w) @
       [StartingCrawl target_url, CrawledPages (length pages), StreamingTo (artifact_path e w)] @
       loop_lines e ?c (enumerate 1 pages) @ [CrawlCompleted, SavedTo (artifact_path e w)]"
    using m by simp
  have "stdout (main e w) =
       (stdout (print_config main_crawler w) @
        [StartingCrawl target_url, CrawledPages (length pages), StreamingTo (artifact_path e w)] @
        loop_lines e ?c (enumerate 1 pages)) @ [CrawlCompleted, SavedTo (artifact_path e w)]"
    using 2 by simp
  then have 3: "final_summary (main e w) = [CrawlCompleted, SavedTo (artifact_path e w)]"
    by (rule final_summary_append)
  have 4: "length (filter is_appended (loop_lines e ?c (enumerate 1 pages))) =
       length (written e ?c (enumerate 1 pages))"
    by (rule appended_lines)
  have "length (map fst (written e ?c (enumerate 1 pages))) \<le> length [1..<Suc (length pages)]"
    unfolding written_positions_main by (rule length_filter_le)
  then have 5: "length (written e ?c (enumerate 1 pages)) \<le> length pages"
    by (simp del: upt_Suc)
  show ?thesis using 1 2 3 4 5 by blast
qed

text \<open>
  Witness for C7: the run of three pages with one skipped.
\<close>

theorem completed_run_report_witness:
  "final_state example_env empty_world = Done_completed \<and>
   final_summary (main example_env empty_world) = [CrawlCompleted, SavedTo example_path] \<and>
   length (filter is_appended (loop_lines example_env 0 (enumerate 1 example_pages))) = 2"
  using completed_run_report [OF example_no_faults(1) example_engine(1), of empty_world]
  by (simp add: example_calls example_artifact_path example_written del: One_nat_def)

text \<open>
  Counterexample to C7 as stated: in the run that crawls three pages and writes two
  sections no line says "2", and the two lines printed after the loop are the same as in a
  run that writes three sections.
\<close>

theorem final_summary_reports_no_counts:
  "stdout (main example_env empty_world) =
     [ConfigHeader, ConfigItem ''max_depth'' ''2'', ConfigItem ''include_external'' ''True'',
      ConfigItem ''verbose'' ''True'', ConfigItem ''strategy'' ''BFSDeepCrawlStrategy'',
      ConfigItem ''scraping_strategy'' ''LXMLWebScrapingStrategy'', Blank,
      TargetURL target_url, Rule,
      StartingCrawl target_url, CrawledPages 3, StreamingTo example_path,
      Extracting ''https://example.com/docs/'', Extracted ''https://example.com/docs/'',
      Appended ''https://example.com/docs/'',
      Extracting ''https://example.com/docs/a'',
      ExtractError ''https://example.com/docs/a'' ''input too large'',
      Extracting ''https://example.com/docs/b'', Extracted ''https://example.com/docs/b'',
      Appended ''https://example.com/docs/b'',
      CrawlCompleted, SavedTo example_path] \<and>
   length (written example_env 0 (enumerate 1 example_pages)) = 2 \<and>
   length (written all_extracted_env 0 (enumerate 1 example_pages)) = 3 \<and>
   final_summary (main example_env empty_world) = [CrawlCompleted, SavedTo example_path] \<and>
   final_summary (main all_extracted_env empty_world) = [CrawlCompleted, SavedTo example_path]"
proof -
  have a: "final_summary (main example_env empty_world) = [CrawlCompleted, SavedTo example_path]"
    using main_ok [OF example_no_faults(1) example_engine(1), of empty_world]
      final_summary_append [of "main example_env empty_world" _ CrawlCompleted "SavedTo example_path"]
    by (simp add: example_artifact_path del: One_nat_def)
  have b: "final_summary (main all_extracted_env empty_world) = [CrawlCompleted, SavedTo example_path]"
    using main_ok [OF example_no_faults(2) example_engine(2), of empty_world]
      final_summary_append [of "main all_extracted_env empty_world" _ CrawlCompleted "SavedTo example_path"]
    by (simp add: example_artifact_path del: One_nat_def)
  show ?thesis
    using example_main_stdout a b
    by (simp add: example_written all_extracted_written del: One_nat_def)
qed

end
